theory Spec2Isabelle
  imports Main
begin

section \<open>Python values\<close>

text \<open>
  The monetization engine (\<^verbatim>\<open>src/monetization/stripe-integration.py\<close>) builds Python
  dictionaries with string keys whose values are integers, strings, booleans, lists and
  further dictionaries. A dictionary is an association list in insertion order; the keys of
  every dictionary literal of the source are distinct, so \<open>map_of\<close> is the lookup.
  Python's \<open>int\<close> is unbounded and is \<open>int\<close> here; strings are ASCII \<open>char\<close> lists, which
  is what every literal of the source is.
\<close>

datatype pyval =
    PNone
  | PInt int
  | PStr string
  | PBool bool
  | PList "pyval list"
  | PDict "(string \<times> pyval) list"

type_synonym pydict = "(string \<times> pyval) list"

datatype py_error =
    StripeError string
  | KeyError string

section \<open>String helpers of the Python runtime\<close>

text \<open>\<^verbatim>\<open>str.lower\<close>, \<^verbatim>\<open>str.title\<close> and the format specifier \<^verbatim>\<open>:03d\<close>, on ASCII.\<close>

definition ascii_upper :: string where
  "ascii_upper = ''ABCDEFGHIJKLMNOPQRSTUVWXYZ''"

definition ascii_lower :: string where
  "ascii_lower = ''abcdefghijklmnopqrstuvwxyz''"

definition lower_char :: "char \<Rightarrow> char" where
  "lower_char c = (case map_of (zip ascii_upper ascii_lower) c of Some d \<Rightarrow> d | None \<Rightarrow> c)"

definition upper_char :: "char \<Rightarrow> char" where
  "upper_char c = (case map_of (zip ascii_lower ascii_upper) c of Some d \<Rightarrow> d | None \<Rightarrow> c)"

definition is_cased :: "char \<Rightarrow> bool" where
  "is_cased c = (c \<in> set ascii_upper \<or> c \<in> set ascii_lower)"

definition lower :: "string \<Rightarrow> string" where
  "lower s = map lower_char s"

text \<open>
  \<^verbatim>\<open>str.title\<close>: a cased character that follows an uncased one (or starts the string) is
  upper-cased, every other cased character is lower-cased.
\<close>

fun title_from :: "bool \<Rightarrow> string \<Rightarrow> string" where
  "title_from prev_cased [] = []"
| "title_from prev_cased (c # cs) =
     (if is_cased c
      then (if prev_cased then lower_char c else upper_char c) # title_from True cs
      else c # title_from False cs)"

definition title :: "string \<Rightarrow> string" where
  "title s = title_from False s"

fun digits :: "nat \<Rightarrow> string" where
  "digits n =
     (if n < 10 then [''0123456789'' ! n]
      else digits (n div 10) @ [''0123456789'' ! (n mod 10)])"

declare digits.simps [simp del]

definition zfill :: "nat \<Rightarrow> string \<Rightarrow> string" where
  "zfill w s = replicate (w - length s) (CHR ''0'') @ s"

text \<open>
  \<^verbatim>\<open>f"{n:03d}"\<close>: sign-aware zero padding to a minimum width of three characters, the
  sign counting as one of them.
\<close>

definition format_03d :: "int \<Rightarrow> string" where
  "format_03d n =
     (if n < 0 then CHR ''-'' # zfill 2 (digits (nat (- n)))
      else zfill 3 (digits (nat n)))"

section \<open>Category mapper\<close>

text \<open>
  \<^verbatim>\<open>MonetizationEngine._get_category_for_template\<close>: the dictionary literal
  \<^verbatim>\<open>category_mapping\<close>, keyed by \<open>(start, end)\<close> pairs, iterated by \<^verbatim>\<open>.items()\<close> in
  insertion order; the first pair with \<^verbatim>\<open>start <= template_id <= end\<close> returns its
  category, and the function returns \<^verbatim>\<open>'Miscellaneous'\<close> after the loop.
\<close>

definition category_mapping :: "((int \<times> int) \<times> string) list" where
  "category_mapping =
     [((1, 60), ''Corporate & Enterprise''),
      ((61, 132), ''Financial Services''),
      ((133, 192), ''E-commerce & Retail''),
      ((193, 252), ''Education & Training''),
      ((253, 272), ''Healthcare & Wellness''),
      ((273, 312), ''Community Impact''),
      ((313, 372), ''Creative & Media''),
      ((373, 432), ''Construction & Real Estate''),
      ((433, 467), ''Technology & SaaS''),
      ((468, 487), ''Research & Development'')]"

fun category_scan :: "((int \<times> int) \<times> string) list \<Rightarrow> int \<Rightarrow> string" where
  "category_scan [] template_id = ''Miscellaneous''"
| "category_scan (((start, finish), category) # rest) template_id =
     (if start \<le> template_id \<and> template_id \<le> finish then category
      else category_scan rest template_id)"

definition get_category_for_template :: "int \<Rightarrow> string" where
  "get_category_for_template template_id = category_scan category_mapping template_id"

text \<open>The test of one loop iteration, as a predicate on an entry of the mapping.\<close>

definition in_range :: "int \<Rightarrow> (int \<times> int) \<times> string \<Rightarrow> bool" where
  "in_range template_id entry =
     (fst (fst entry) \<le> template_id \<and> template_id \<le> snd (fst entry))"

section \<open>The Stripe API as a collaborator\<close>

text \<open>
  The engine talks to the payment service through \<^verbatim>\<open>stripe.Product.create\<close> and
  \<^verbatim>\<open>stripe.Price.create\<close>. Each either returns an object, of which the engine reads only
  \<^verbatim>\<open>.id\<close>, or raises. The service is a parameter of the model: a function from the
  requests issued so far and the current request to the new object's id (\<open>Inr\<close>) or to
  the reason of the failure (\<open>Inl\<close>). The state threaded through the engine is the log of
  requests issued, in order, the failing one included.
\<close>

datatype stripe_call =
    Product_create (name: string) (description: string) (metadata: pydict)
  | Price_create (product: string) (unit_amount: int) (currency: string)
      (recurring: "pydict option") (metadata: pydict)

type_synonym stripe = "stripe_call list \<Rightarrow> stripe_call \<Rightarrow> string + string"

type_synonym 'a engine = "stripe_call list \<Rightarrow> (py_error + 'a) \<times> stripe_call list"

definition stripe_request :: "stripe \<Rightarrow> stripe_call \<Rightarrow> string engine" where
  "stripe_request api c log =
     (case api log c of
        Inl reason \<Rightarrow> (Inl (StripeError reason), log @ [c])
      | Inr ident \<Rightarrow> (Inr ident, log @ [c]))"

section \<open>Product creation steps\<close>

text \<open>
  \<^verbatim>\<open>_create_individual_template_product\<close>. \<open>base_price\<close> is the local of that name:
  \<^verbatim>\<open>base_price = 25 + (template_id % 25)\<close>; Python's \<^verbatim>\<open>%\<close> with a positive divisor
  is \<open>mod\<close> on \<open>int\<close> (the result is never negative).
\<close>

definition base_price :: "int \<Rightarrow> int" where
  "base_price template_id = 25 + (template_id mod 25)"

definition create_individual_template_product :: "stripe \<Rightarrow> int \<Rightarrow> pydict engine" where
  "create_individual_template_product api template_id log =
     (case stripe_request api
             (Product_create
                (''Business Template #'' @ format_03d template_id)
                ''AI-powered business template with automated setup and monetization strategies''
                [(''template_id'', PInt template_id),
                 (''category'', PStr (get_category_for_template template_id)),
                 (''type'', PStr ''individual_template'')]) log of
        (Inl e, log1) \<Rightarrow> (Inl e, log1)
      | (Inr product_id, log1) \<Rightarrow>
          (case stripe_request api
                  (Price_create product_id (base_price template_id * 100) ''usd'' None
                     [(''template_id'', PInt template_id),
                      (''pricing_tier'', PStr ''individual'')]) log1 of
             (Inl e, log2) \<Rightarrow> (Inl e, log2)
           | (Inr price_id, log2) \<Rightarrow>
               (Inr [(''product_id'', PStr product_id),
                     (''price_id'', PStr price_id),
                     (''template_id'', PInt template_id),
                     (''amount'', PInt (base_price template_id)),
                     (''stripe_url'', PStr (''https://buy.stripe.com/test_'' @ price_id))],
                log2)))"

text \<open>
  \<^verbatim>\<open>_create_bundle_product\<close>, with its locals \<^verbatim>\<open>bundle_size = 48\<close> and
  \<^verbatim>\<open>bundle_price = 199 + (len(category) * 10)\<close>.
\<close>

definition bundle_size :: int where
  "bundle_size = 48"

definition bundle_price :: "string \<Rightarrow> int" where
  "bundle_price category = 199 + (int (length category) * 10)"

definition create_bundle_product :: "stripe \<Rightarrow> string \<Rightarrow> pydict engine" where
  "create_bundle_product api category log =
     (case stripe_request api
             (Product_create
                (category @ '' Template Bundle'')
                (''Complete '' @ lower category @ '' business template collection with ''
                   @ digits (nat bundle_size) @ ''+ templates'')
                [(''category'', PStr category),
                 (''template_count'', PInt bundle_size),
                 (''type'', PStr ''bundle'')]) log of
        (Inl e, log1) \<Rightarrow> (Inl e, log1)
      | (Inr product_id, log1) \<Rightarrow>
          (case stripe_request api
                  (Price_create product_id (bundle_price category * 100) ''usd'' None
                     [(''category'', PStr category),
                      (''pricing_tier'', PStr ''bundle'')]) log1 of
             (Inl e, log2) \<Rightarrow> (Inl e, log2)
           | (Inr price_id, log2) \<Rightarrow>
               (Inr [(''product_id'', PStr product_id),
                     (''price_id'', PStr price_id),
                     (''category'', PStr category),
                     (''amount'', PInt (bundle_price category)),
                     (''template_count'', PInt bundle_size)],
                log2)))"

text \<open>\<^verbatim>\<open>_create_vault_license_product\<close>: every amount is a literal.\<close>

definition create_vault_license_product :: "stripe \<Rightarrow> pydict engine" where
  "create_vault_license_product api log =
     (case stripe_request api
             (Product_create
                ''Template Vault License - All 487 Templates''
                ''Complete access to all 487 business templates + lifetime updates + exclusive consulting sessions''
                [(''template_count'', PInt 487),
                 (''type'', PStr ''vault_license''),
                 (''includes'', PStr ''all_templates,lifetime_updates,consulting'')]) log of
        (Inl e, log1) \<Rightarrow> (Inl e, log1)
      | (Inr product_id, log1) \<Rightarrow>
          (case stripe_request api
                  (Price_create product_id 99700 ''usd'' None
                     [(''pricing_tier'', PStr ''vault''),
                      (''value_proposition'', PStr ''complete_access'')]) log1 of
             (Inl e, log2) \<Rightarrow> (Inl e, log2)
           | (Inr price_id, log2) \<Rightarrow>
               (Inr [(''product_id'', PStr product_id),
                     (''price_id'', PStr price_id),
                     (''amount'', PInt 997),
                     (''template_count'', PInt 487),
                     (''includes'', PList [PStr ''all_templates'', PStr ''lifetime_updates'',
                                           PStr ''consulting_sessions''])],
                log2)))"

text \<open>
  \<^verbatim>\<open>_create_subscription_product\<close>: \<^verbatim>\<open>amounts[interval]\<close> raises \<^verbatim>\<open>KeyError\<close> for an
  interval that is not a key, before any request is issued.
\<close>

definition amounts :: "(string \<times> int) list" where
  "amounts = [(''monthly'', 47), (''annual'', 470)]"

definition create_subscription_product :: "stripe \<Rightarrow> string \<Rightarrow> pydict engine" where
  "create_subscription_product api interval log =
     (case map_of amounts interval of
        None \<Rightarrow> (Inl (KeyError interval), log)
      | Some amount \<Rightarrow>
          (case stripe_request api
                  (Product_create
                     (''Template Studio '' @ title interval @ '' Subscription'')
                     ''10 new AI-generated templates monthly + template customization tools + priority support''
                     [(''type'', PStr ''subscription''),
                      (''interval'', PStr interval),
                      (''templates_per_month'', PInt 10)]) log of
             (Inl e, log1) \<Rightarrow> (Inl e, log1)
           | (Inr product_id, log1) \<Rightarrow>
               (case stripe_request api
                       (Price_create product_id (amount * 100) ''usd''
                          (Some [(''interval'',
                                  PStr (if interval = ''monthly'' then ''month'' else ''year''))])
                          [(''pricing_tier'', PStr ''subscription''),
                           (''templates_monthly'', PInt 10)]) log1 of
                  (Inl e, log2) \<Rightarrow> (Inl e, log2)
                | (Inr price_id, log2) \<Rightarrow>
                    (Inr [(''product_id'', PStr product_id),
                          (''price_id'', PStr price_id),
                          (''interval'', PStr interval),
                          (''amount'', PInt amount),
                          (''templates_per_month'', PInt 10)],
                     log2))))"

text \<open>
  \<^verbatim>\<open>_create_enterprise_product\<close>: one product, then the loop over the three
  \<open>(tier, amount)\<close> pairs, one price each, appended to \<^verbatim>\<open>prices\<close>.
\<close>

definition enterprise_tiers :: "(string \<times> int) list" where
  "enterprise_tiers = [(''starter'', 1997), (''growth'', 2997), (''enterprise'', 4997)]"

fun enterprise_prices :: "stripe \<Rightarrow> string \<Rightarrow> (string \<times> int) list \<Rightarrow> pyval list
    \<Rightarrow> pyval list engine" where
  "enterprise_prices api product_id [] prices log = (Inr prices, log)"
| "enterprise_prices api product_id ((tier, amount) # rest) prices log =
     (case stripe_request api
             (Price_create product_id (amount * 100) ''usd'' None
                [(''pricing_tier'', PStr (''enterprise_'' @ tier)),
                 (''includes_consulting'', PBool True)]) log of
        (Inl e, log1) \<Rightarrow> (Inl e, log1)
      | (Inr price_id, log1) \<Rightarrow>
          enterprise_prices api product_id rest
            (prices @ [PDict [(''tier'', PStr tier),
                              (''price_id'', PStr price_id),
                              (''amount'', PInt amount)]]) log1)"

definition create_enterprise_product :: "stripe \<Rightarrow> pydict engine" where
  "create_enterprise_product api log =
     (case stripe_request api
             (Product_create
                ''Enterprise Template Development + Consulting''
                ''Custom template creation + white-label licensing + dedicated support + implementation consulting''
                [(''type'', PStr ''enterprise''),
                 (''includes'', PStr ''custom_templates,white_label,consulting,implementation'')])
             log of
        (Inl e, log1) \<Rightarrow> (Inl e, log1)
      | (Inr product_id, log1) \<Rightarrow>
          (case enterprise_prices api product_id enterprise_tiers [] log1 of
             (Inl e, log2) \<Rightarrow> (Inl e, log2)
           | (Inr prices, log2) \<Rightarrow>
               (Inr [(''product_id'', PStr product_id),
                     (''pricing_tiers'', PList prices),
                     (''type'', PStr ''enterprise'')],
                log2)))"

section \<open>Catalog generation\<close>

text \<open>
  \<^verbatim>\<open>create_all_stripe_products\<close>. The \<^verbatim>\<open>results\<close> dictionary has five fixed keys and is a
  record; each loop appends to its list. No statement of the method is inside a
  \<^verbatim>\<open>try\<close>, so an exception of any step leaves the method at once.
\<close>

record results =
  individual_templates :: "pydict list"
  bundles :: "pydict list"
  subscriptions :: "pydict list"
  enterprise :: "pydict list"
  vault_license :: "pydict option"

definition categories :: "string list" where
  "categories =
     [''Corporate & Enterprise'', ''Financial Services'', ''E-commerce & Retail'',
      ''Education & Training'', ''Healthcare & Wellness'', ''Community Impact'',
      ''Creative & Media'', ''Construction & Real Estate'', ''Technology & SaaS'',
      ''Research & Development'']"

fun individual_loop :: "stripe \<Rightarrow> int list \<Rightarrow> pydict list \<Rightarrow> pydict list engine" where
  "individual_loop api [] acc log = (Inr acc, log)"
| "individual_loop api (i # rest) acc log =
     (case create_individual_template_product api i log of
        (Inl e, log1) \<Rightarrow> (Inl e, log1)
      | (Inr template_product, log1) \<Rightarrow>
          individual_loop api rest (acc @ [template_product]) log1)"

fun bundle_loop :: "stripe \<Rightarrow> string list \<Rightarrow> pydict list \<Rightarrow> pydict list engine" where
  "bundle_loop api [] acc log = (Inr acc, log)"
| "bundle_loop api (category # rest) acc log =
     (case create_bundle_product api category log of
        (Inl e, log1) \<Rightarrow> (Inl e, log1)
      | (Inr bundle_product, log1) \<Rightarrow>
          bundle_loop api rest (acc @ [bundle_product]) log1)"

definition create_all_stripe_products :: "stripe \<Rightarrow> results engine" where
  "create_all_stripe_products api log =
     (case individual_loop api [1..487] [] log of
        (Inl e, log1) \<Rightarrow> (Inl e, log1)
      | (Inr individual, log1) \<Rightarrow>
     (case bundle_loop api categories [] log1 of
        (Inl e, log2) \<Rightarrow> (Inl e, log2)
      | (Inr bundle_products, log2) \<Rightarrow>
     (case create_vault_license_product api log2 of
        (Inl e, log3) \<Rightarrow> (Inl e, log3)
      | (Inr vault_product, log3) \<Rightarrow>
     (case create_subscription_product api ''monthly'' log3 of
        (Inl e, log4) \<Rightarrow> (Inl e, log4)
      | (Inr monthly_sub, log4) \<Rightarrow>
     (case create_subscription_product api ''annual'' log4 of
        (Inl e, log5) \<Rightarrow> (Inl e, log5)
      | (Inr annual_sub, log5) \<Rightarrow>
     (case create_enterprise_product api log5 of
        (Inl e, log6) \<Rightarrow> (Inl e, log6)
      | (Inr enterprise_product, log6) \<Rightarrow>
          (Inr \<lparr>individual_templates = individual,
                bundles = bundle_products,
                subscriptions = [monthly_sub, annual_sub],
                enterprise = [] @ [enterprise_product],
                vault_license = Some vault_product\<rparr>,
           log6)))))))"

section \<open>Price tiers of the orchestrator\<close>

text \<open>
  \<^verbatim>\<open>TemplateOrchestrator._calculate_price_tier\<close>
  (\<^verbatim>\<open>src/agents/template-orchestrator.py\<close>):
  \<^verbatim>\<open>pricing_tiers.get(category.lower(), pricing_tiers["default"])\<close>.
\<close>

definition default_tier :: "(string \<times> int) list" where
  "default_tier = [(''individual'', 25), (''bundle'', 149), (''enterprise'', 897)]"

definition pricing_tiers :: "(string \<times> (string \<times> int) list) list" where
  "pricing_tiers =
     [(''fintech'', [(''individual'', 49), (''bundle'', 299), (''enterprise'', 1997)]),
      (''saas'', [(''individual'', 39), (''bundle'', 249), (''enterprise'', 1497)]),
      (''ecommerce'', [(''individual'', 29), (''bundle'', 199), (''enterprise'', 997)]),
      (''consulting'', [(''individual'', 59), (''bundle'', 399), (''enterprise'', 2497)]),
      (''default'', default_tier)]"

definition calculate_price_tier :: "string \<Rightarrow> (string \<times> int) list" where
  "calculate_price_tier category =
     (case map_of pricing_tiers (lower category) of
        Some tier \<Rightarrow> tier
      | None \<Rightarrow> default_tier)"

section \<open>Observing a run\<close>

text \<open>
  What the statements below say about a run of the engine is phrased with the following
  notions. None of them is part of the engine.

  A service \<open>always_succeeds\<close> when it answers every request, after every history, with an
  id. \<open>all_ok api log ext\<close> says that each request of \<open>ext\<close>, issued in order after the
  history \<open>log\<close>, was answered with an id.
\<close>


definition always_succeeds :: "stripe \<Rightarrow> bool" where
  "always_succeeds api = (\<forall>log c. \<exists>ident. api log c = Inr ident)"

fun all_ok :: "stripe \<Rightarrow> stripe_call list \<Rightarrow> stripe_call list \<Rightarrow> bool" where
  "all_ok api log [] = True"
| "all_ok api log (c # cs) = ((\<exists>ident. api log c = Inr ident) \<and> all_ok api (log @ [c]) cs)"

text \<open>
  The requests of a log, by kind: for each product request its \<^verbatim>\<open>type\<close> and
  \<^verbatim>\<open>category\<close> metadata, for each price request its \<^verbatim>\<open>pricing_tier\<close> metadata and
  its \<^verbatim>\<open>unit_amount\<close> (in cents).
\<close>

fun product_requests :: "stripe_call list \<Rightarrow> (pyval option \<times> pyval option) list" where
  "product_requests [] = []"
| "product_requests (Product_create n d m # cs) =
     (map_of m ''type'', map_of m ''category'') # product_requests cs"
| "product_requests (Price_create p u cur r m # cs) = product_requests cs"

fun price_requests :: "stripe_call list \<Rightarrow> (pyval option \<times> int) list" where
  "price_requests [] = []"
| "price_requests (Product_create n d m # cs) = price_requests cs"
| "price_requests (Price_create p u cur r m # cs) =
     (map_of m ''pricing_tier'', u) # price_requests cs"

text \<open>The fields of the returned dictionaries that the statements read.\<close>

definition item_view :: "pydict \<Rightarrow> pyval option \<times> pyval option" where
  "item_view r = (map_of r ''template_id'', map_of r ''amount'')"

definition bundle_view :: "pydict \<Rightarrow> pyval option \<times> pyval option" where
  "bundle_view r = (map_of r ''category'', map_of r ''amount'')"

definition subscription_view :: "pydict \<Rightarrow> pyval option \<times> pyval option" where
  "subscription_view r = (map_of r ''interval'', map_of r ''amount'')"

fun tier_view :: "pyval \<Rightarrow> pyval option \<times> pyval option" where
  "tier_view (PDict d) = (map_of d ''tier'', map_of d ''amount'')"
| "tier_view v = (None, None)"

text \<open>
  \<open>fails_last api log ext e\<close>: the last request of \<open>ext\<close> was refused, every request
  before it was answered, and \<open>e\<close> is the refusal. A run is \<open>faithful\<close> when its log only
  grows and its outcome is read off the service's answers: a value when every request was
  answered, and otherwise the error of the refused request, which is the last one issued.
\<close>

definition fails_last :: "stripe \<Rightarrow> stripe_call list \<Rightarrow> stripe_call list \<Rightarrow> py_error \<Rightarrow> bool" where
  "fails_last api log ext e =
     (\<exists>pre c reason. ext = pre @ [c] \<and> all_ok api log pre \<and>
        api (log @ pre) c = Inl reason \<and> e = StripeError reason)"

definition faithful :: "stripe \<Rightarrow> stripe_call list \<Rightarrow> (py_error + 'a) \<times> stripe_call list \<Rightarrow> bool" where
  "faithful api log res =
     (\<exists>ext. snd res = log @ ext \<and>
        (case fst res of
           Inr x \<Rightarrow> all_ok api log ext
         | Inl e \<Rightarrow> fails_last api log ext e))"

text \<open>
  Two services to run the engine against: one that answers every request with an id made of
  the position of the request, and one that refuses the product request of one template id
  and answers every other request.
\<close>

definition stripe_ok :: stripe where
  "stripe_ok log c = Inr (''id_'' @ digits (length log))"

definition stripe_fails_on :: "int \<Rightarrow> stripe" where
  "stripe_fails_on k log c =
     (case c of
        Product_create n d m \<Rightarrow>
          (if map_of m ''template_id'' = Some (PInt k) then Inl ''card_declined''
           else Inr (''prod_'' @ digits (length log)))
      | Price_create p u cur r m \<Rightarrow> Inr (''price_'' @ digits (length log)))"

text \<open>
  \<open>answered api log ext ids\<close>: the service answered the requests of \<open>ext\<close>, issued in
  order after the history \<open>log\<close>, with exactly the ids \<open>ids\<close>, one per request.
\<close>

fun answered :: "stripe \<Rightarrow> stripe_call list \<Rightarrow> stripe_call list \<Rightarrow> string list \<Rightarrow> bool" where
  "answered api log [] ids = (ids = [])"
| "answered api log (c # cs) ids =
     (case ids of
        [] \<Rightarrow> False
      | ident # rest \<Rightarrow> api log c = Inr ident \<and> answered api (log @ [c]) cs rest)"

text \<open>
  The catalog a complete run is expected to produce, entry by entry: the two requests of
  an entry, given the product id the service answered to the first, and the record of the
  entry, given both answered ids. The enterprise entry has one product request and three
  price requests.
\<close>

definition item_requests_of :: "int \<Rightarrow> string \<Rightarrow> stripe_call list" where
  "item_requests_of i p =
     [Product_create (''Business Template #'' @ format_03d i)
        ''AI-powered business template with automated setup and monetization strategies''
        [(''template_id'', PInt i),
         (''category'', PStr (get_category_for_template i)),
         (''type'', PStr ''individual_template'')],
      Price_create p ((25 + i mod 25) * 100) ''usd'' None
        [(''template_id'', PInt i), (''pricing_tier'', PStr ''individual'')]]"

definition item_record_of :: "int \<Rightarrow> string \<Rightarrow> string \<Rightarrow> pydict" where
  "item_record_of i p q =
     [(''product_id'', PStr p), (''price_id'', PStr q),
      (''template_id'', PInt i), (''amount'', PInt (25 + i mod 25)),
      (''stripe_url'', PStr (''https://buy.stripe.com/test_'' @ q))]"

definition bundle_requests_of :: "string \<Rightarrow> string \<Rightarrow> stripe_call list" where
  "bundle_requests_of c p =
     [Product_create (c @ '' Template Bundle'')
        (''Complete '' @ lower c @ '' business template collection with 48+ templates'')
        [(''category'', PStr c), (''template_count'', PInt 48), (''type'', PStr ''bundle'')],
      Price_create p ((199 + 10 * int (length c)) * 100) ''usd'' None
        [(''category'', PStr c), (''pricing_tier'', PStr ''bundle'')]]"

definition bundle_record_of :: "string \<Rightarrow> string \<Rightarrow> string \<Rightarrow> pydict" where
  "bundle_record_of c p q =
     [(''product_id'', PStr p), (''price_id'', PStr q),
      (''category'', PStr c), (''amount'', PInt (199 + 10 * int (length c))),
      (''template_count'', PInt 48)]"

definition vault_requests_of :: "string \<Rightarrow> stripe_call list" where
  "vault_requests_of p =
     [Product_create ''Template Vault License - All 487 Templates''
        ''Complete access to all 487 business templates + lifetime updates + exclusive consulting sessions''
        [(''template_count'', PInt 487), (''type'', PStr ''vault_license''),
         (''includes'', PStr ''all_templates,lifetime_updates,consulting'')],
      Price_create p 99700 ''usd'' None
        [(''pricing_tier'', PStr ''vault''),
         (''value_proposition'', PStr ''complete_access'')]]"

definition vault_record_of :: "string \<Rightarrow> string \<Rightarrow> pydict" where
  "vault_record_of p q =
     [(''product_id'', PStr p), (''price_id'', PStr q),
      (''amount'', PInt 997), (''template_count'', PInt 487),
      (''includes'', PList [PStr ''all_templates'', PStr ''lifetime_updates'',
                            PStr ''consulting_sessions''])]"

definition subscription_requests_of ::
    "string \<Rightarrow> string \<Rightarrow> int \<Rightarrow> string \<Rightarrow> string \<Rightarrow> stripe_call list" where
  "subscription_requests_of interval titled amount every p =
     [Product_create (''Template Studio '' @ titled @ '' Subscription'')
        ''10 new AI-generated templates monthly + template customization tools + priority support''
        [(''type'', PStr ''subscription''), (''interval'', PStr interval),
         (''templates_per_month'', PInt 10)],
      Price_create p (amount * 100) ''usd'' (Some [(''interval'', PStr every)])
        [(''pricing_tier'', PStr ''subscription''), (''templates_monthly'', PInt 10)]]"

definition subscription_record_of :: "string \<Rightarrow> int \<Rightarrow> string \<Rightarrow> string \<Rightarrow> pydict" where
  "subscription_record_of interval amount p q =
     [(''product_id'', PStr p), (''price_id'', PStr q),
      (''interval'', PStr interval), (''amount'', PInt amount),
      (''templates_per_month'', PInt 10)]"

definition enterprise_requests_of :: "string \<Rightarrow> stripe_call list" where
  "enterprise_requests_of p =
     [Product_create ''Enterprise Template Development + Consulting''
        ''Custom template creation + white-label licensing + dedicated support + implementation consulting''
        [(''type'', PStr ''enterprise''),
         (''includes'', PStr ''custom_templates,white_label,consulting,implementation'')],
      Price_create p 199700 ''usd'' None
        [(''pricing_tier'', PStr ''enterprise_starter''), (''includes_consulting'', PBool True)],
      Price_create p 299700 ''usd'' None
        [(''pricing_tier'', PStr ''enterprise_growth''), (''includes_consulting'', PBool True)],
      Price_create p 499700 ''usd'' None
        [(''pricing_tier'', PStr ''enterprise_enterprise''),
         (''includes_consulting'', PBool True)]]"

definition enterprise_record_of :: "string \<Rightarrow> string \<Rightarrow> string \<Rightarrow> string \<Rightarrow> pydict" where
  "enterprise_record_of p q1 q2 q3 =
     [(''product_id'', PStr p),
      (''pricing_tiers'', PList
         [PDict [(''tier'', PStr ''starter''), (''price_id'', PStr q1), (''amount'', PInt 1997)],
          PDict [(''tier'', PStr ''growth''), (''price_id'', PStr q2), (''amount'', PInt 2997)],
          PDict [(''tier'', PStr ''enterprise''), (''price_id'', PStr q3),
                 (''amount'', PInt 4997)]]),
      (''type'', PStr ''enterprise'')]"

section \<open>Lemmas\<close>

subsection \<open>Logs\<close>

lemma product_requests_append:
  "product_requests (xs @ ys) = product_requests xs @ product_requests ys"
  by (induction xs rule: product_requests.induct) simp_all

lemma price_requests_append:
  "price_requests (xs @ ys) = price_requests xs @ price_requests ys"
  by (induction xs rule: price_requests.induct) simp_all

lemma all_ok_append:
  "all_ok api log (xs @ ys) = (all_ok api log xs \<and> all_ok api (log @ xs) ys)"
  by (induction xs arbitrary: log) simp_all

lemma stripe_request_cases:
  "(\<exists>reason. api log c = Inl reason \<and> stripe_request api c log = (Inl (StripeError reason), log @ [c]))
   \<or> (\<exists>ident. api log c = Inr ident \<and> stripe_request api c log = (Inr ident, log @ [c]))"
  by (cases "api log c") (simp_all add: stripe_request_def)

lemma stripe_request_ok:
  assumes "always_succeeds api"
  shows "\<exists>ident. stripe_request api c log = (Inr ident, log @ [c])"
proof -
  obtain ident where "api log c = Inr ident"
    using assms unfolding always_succeeds_def by blast
  then show ?thesis by (simp add: stripe_request_def)
qed

lemma individual_ok:
  assumes "always_succeeds api"
  shows "\<exists>product_id price_id nm ds url.
     create_individual_template_product api t log =
       (Inr [(''product_id'', PStr product_id), (''price_id'', PStr price_id),
             (''template_id'', PInt t), (''amount'', PInt (base_price t)),
             (''stripe_url'', PStr url)],
        log @ [Product_create nm ds
                 [(''template_id'', PInt t),
                  (''category'', PStr (get_category_for_template t)),
                  (''type'', PStr ''individual_template'')],
               Price_create product_id (base_price t * 100) ''usd'' None
                 [(''template_id'', PInt t), (''pricing_tier'', PStr ''individual'')]])"
proof -
  let ?c1 = "Product_create (''Business Template #'' @ format_03d t)
                ''AI-powered business template with automated setup and monetization strategies''
                [(''template_id'', PInt t),
                 (''category'', PStr (get_category_for_template t)),
                 (''type'', PStr ''individual_template'')]"
  obtain p where p: "stripe_request api ?c1 log = (Inr p, log @ [?c1])"
    using stripe_request_ok [OF assms] by blast
  let ?c2 = "Price_create p (base_price t * 100) ''usd'' None
                 [(''template_id'', PInt t), (''pricing_tier'', PStr ''individual'')]"
  obtain q where q: "stripe_request api ?c2 (log @ [?c1]) = (Inr q, (log @ [?c1]) @ [?c2])"
    using stripe_request_ok [OF assms] by blast
  have "create_individual_template_product api t log =
       (Inr [(''product_id'', PStr p), (''price_id'', PStr q),
             (''template_id'', PInt t), (''amount'', PInt (base_price t)),
             (''stripe_url'', PStr (''https://buy.stripe.com/test_'' @ q))],
        (log @ [?c1]) @ [?c2])"
    unfolding create_individual_template_product_def
    by (simp only: p q prod.case sum.case)
  then show ?thesis by simp
qed

lemma bundle_ok:
  assumes "always_succeeds api"
  shows "\<exists>product_id price_id nm ds.
     create_bundle_product api category log =
       (Inr [(''product_id'', PStr product_id), (''price_id'', PStr price_id),
             (''category'', PStr category), (''amount'', PInt (bundle_price category)),
             (''template_count'', PInt bundle_size)],
        log @ [Product_create nm ds
                 [(''category'', PStr category), (''template_count'', PInt bundle_size),
                  (''type'', PStr ''bundle'')],
               Price_create product_id (bundle_price category * 100) ''usd'' None
                 [(''category'', PStr category), (''pricing_tier'', PStr ''bundle'')]])"
proof -
  let ?c1 = "Product_create (category @ '' Template Bundle'')
                (''Complete '' @ lower category @ '' business template collection with ''
                   @ digits (nat bundle_size) @ ''+ templates'')
                [(''category'', PStr category), (''template_count'', PInt bundle_size),
                 (''type'', PStr ''bundle'')]"
  obtain p where p: "stripe_request api ?c1 log = (Inr p, log @ [?c1])"
    using stripe_request_ok [OF assms] by blast
  let ?c2 = "Price_create p (bundle_price category * 100) ''usd'' None
                 [(''category'', PStr category), (''pricing_tier'', PStr ''bundle'')]"
  obtain q where q: "stripe_request api ?c2 (log @ [?c1]) = (Inr q, (log @ [?c1]) @ [?c2])"
    using stripe_request_ok [OF assms] by blast
  have "create_bundle_product api category log =
       (Inr [(''product_id'', PStr p), (''price_id'', PStr q),
             (''category'', PStr category), (''amount'', PInt (bundle_price category)),
             (''template_count'', PInt bundle_size)],
        (log @ [?c1]) @ [?c2])"
    unfolding create_bundle_product_def
    by (simp only: p q prod.case sum.case)
  then show ?thesis by simp
qed

lemma vault_ok:
  assumes "always_succeeds api"
  shows "\<exists>product_id price_id nm ds.
     create_vault_license_product api log =
       (Inr [(''product_id'', PStr product_id), (''price_id'', PStr price_id),
             (''amount'', PInt 997), (''template_count'', PInt 487),
             (''includes'', PList [PStr ''all_templates'', PStr ''lifetime_updates'',
                                   PStr ''consulting_sessions''])],
        log @ [Product_create nm ds
                 [(''template_count'', PInt 487), (''type'', PStr ''vault_license''),
                  (''includes'', PStr ''all_templates,lifetime_updates,consulting'')],
               Price_create product_id 99700 ''usd'' None
                 [(''pricing_tier'', PStr ''vault''),
                  (''value_proposition'', PStr ''complete_access'')]])"
proof -
  let ?c1 = "Product_create ''Template Vault License - All 487 Templates''
                ''Complete access to all 487 business templates + lifetime updates + exclusive consulting sessions''
                [(''template_count'', PInt 487), (''type'', PStr ''vault_license''),
                 (''includes'', PStr ''all_templates,lifetime_updates,consulting'')]"
  obtain p where p: "stripe_request api ?c1 log = (Inr p, log @ [?c1])"
    using stripe_request_ok [OF assms] by blast
  let ?c2 = "Price_create p 99700 ''usd'' None
                 [(''pricing_tier'', PStr ''vault''),
                  (''value_proposition'', PStr ''complete_access'')]"
  obtain q where q: "stripe_request api ?c2 (log @ [?c1]) = (Inr q, (log @ [?c1]) @ [?c2])"
    using stripe_request_ok [OF assms] by blast
  have "create_vault_license_product api log =
       (Inr [(''product_id'', PStr p), (''price_id'', PStr q),
             (''amount'', PInt 997), (''template_count'', PInt 487),
             (''includes'', PList [PStr ''all_templates'', PStr ''lifetime_updates'',
                                   PStr ''consulting_sessions''])],
        (log @ [?c1]) @ [?c2])"
    unfolding create_vault_license_product_def
    by (simp only: p q prod.case sum.case)
  then show ?thesis by simp
qed

lemma subscription_ok:
  assumes "always_succeeds api" and "map_of amounts interval = Some amount"
  shows "\<exists>product_id price_id nm ds rc.
     create_subscription_product api interval log =
       (Inr [(''product_id'', PStr product_id), (''price_id'', PStr price_id),
             (''interval'', PStr interval), (''amount'', PInt amount),
             (''templates_per_month'', PInt 10)],
        log @ [Product_create nm ds
                 [(''type'', PStr ''subscription''), (''interval'', PStr interval),
                  (''templates_per_month'', PInt 10)],
               Price_create product_id (amount * 100) ''usd'' (Some rc)
                 [(''pricing_tier'', PStr ''subscription''),
                  (''templates_monthly'', PInt 10)]])"
proof -
  let ?c1 = "Product_create (''Template Studio '' @ title interval @ '' Subscription'')
                ''10 new AI-generated templates monthly + template customization tools + priority support''
                [(''type'', PStr ''subscription''), (''interval'', PStr interval),
                 (''templates_per_month'', PInt 10)]"
  obtain p where p: "stripe_request api ?c1 log = (Inr p, log @ [?c1])"
    using stripe_request_ok [OF assms(1)] by blast
  let ?c2 = "Price_create p (amount * 100) ''usd''
                 (Some [(''interval'',
                         PStr (if interval = ''monthly'' then ''month'' else ''year''))])
                 [(''pricing_tier'', PStr ''subscription''),
                  (''templates_monthly'', PInt 10)]"
  obtain q where q: "stripe_request api ?c2 (log @ [?c1]) = (Inr q, (log @ [?c1]) @ [?c2])"
    using stripe_request_ok [OF assms(1)] by blast
  have "create_subscription_product api interval log =
       (Inr [(''product_id'', PStr p), (''price_id'', PStr q),
             (''interval'', PStr interval), (''amount'', PInt amount),
             (''templates_per_month'', PInt 10)],
        (log @ [?c1]) @ [?c2])"
    unfolding create_subscription_product_def
    by (simp only: assms(2) p q prod.case sum.case option.case)
  then show ?thesis by simp
qed

lemma enterprise_prices_ok:
  assumes "always_succeeds api"
  shows "\<exists>ps ext.
     enterprise_prices api product_id tiers prices log = (Inr (prices @ ps), log @ ext) \<and>
     map tier_view ps = map (\<lambda>ta. (Some (PStr (fst ta)), Some (PInt (snd ta)))) tiers \<and>
     product_requests ext = [] \<and>
     price_requests ext =
       map (\<lambda>ta. (Some (PStr (''enterprise_'' @ fst ta)), snd ta * 100)) tiers"
proof (induction tiers arbitrary: prices log)
  case Nil
  show ?case by simp
next
  case (Cons ta rest)
  obtain tier amount where ta: "ta = (tier, amount)" by (cases ta)
  let ?c = "Price_create product_id (amount * 100) ''usd'' None
                [(''pricing_tier'', PStr (''enterprise_'' @ tier)),
                 (''includes_consulting'', PBool True)]"
  obtain q where q: "stripe_request api ?c log = (Inr q, log @ [?c])"
    using stripe_request_ok [OF assms] by blast
  let ?d = "PDict [(''tier'', PStr tier), (''price_id'', PStr q), (''amount'', PInt amount)]"
  from Cons.IH [of "prices @ [?d]" "log @ [?c]"]
  obtain ps ext where
    run: "enterprise_prices api product_id rest (prices @ [?d]) (log @ [?c])
            = (Inr ((prices @ [?d]) @ ps), (log @ [?c]) @ ext)"
    and ps: "map tier_view ps = map (\<lambda>ta. (Some (PStr (fst ta)), Some (PInt (snd ta)))) rest"
    and pr: "product_requests ext = []"
    and pc: "price_requests ext =
       map (\<lambda>ta. (Some (PStr (''enterprise_'' @ fst ta)), snd ta * 100)) rest"
    by (elim exE conjE)
  have "enterprise_prices api product_id (ta # rest) prices log
          = (Inr (prices @ (?d # ps)), log @ (?c # ext))"
    unfolding ta enterprise_prices.simps by (simp only: q run prod.case sum.case) simp
  moreover have "map tier_view (?d # ps) =
       map (\<lambda>ta. (Some (PStr (fst ta)), Some (PInt (snd ta)))) (ta # rest)"
    by (simp add: ta ps)
  moreover have "product_requests (?c # ext) = []"
    by (simp add: pr)
  moreover have "price_requests (?c # ext) =
       map (\<lambda>ta. (Some (PStr (''enterprise_'' @ fst ta)), snd ta * 100)) (ta # rest)"
    using pc by (simp add: ta)
  ultimately show ?case by (intro exI conjI)
qed

lemma enterprise_ok:
  assumes "always_succeeds api"
  shows "\<exists>product_id ps ext.
     create_enterprise_product api log =
       (Inr [(''product_id'', PStr product_id), (''pricing_tiers'', PList ps),
             (''type'', PStr ''enterprise'')], log @ ext) \<and>
     map tier_view ps =
       [(Some (PStr ''starter''), Some (PInt 1997)),
        (Some (PStr ''growth''), Some (PInt 2997)),
        (Some (PStr ''enterprise''), Some (PInt 4997))] \<and>
     product_requests ext = [(Some (PStr ''enterprise''), None)] \<and>
     price_requests ext =
       [(Some (PStr ''enterprise_starter''), 199700),
        (Some (PStr ''enterprise_growth''), 299700),
        (Some (PStr ''enterprise_enterprise''), 499700)]"
proof -
  let ?c1 = "Product_create ''Enterprise Template Development + Consulting''
                ''Custom template creation + white-label licensing + dedicated support + implementation consulting''
                [(''type'', PStr ''enterprise''),
                 (''includes'', PStr ''custom_templates,white_label,consulting,implementation'')]"
  obtain p where p: "stripe_request api ?c1 log = (Inr p, log @ [?c1])"
    using stripe_request_ok [OF assms] by blast
  from enterprise_prices_ok [OF assms, of p enterprise_tiers "[]" "log @ [?c1]"]
  obtain ps ext where
    run: "enterprise_prices api p enterprise_tiers [] (log @ [?c1])
            = (Inr ([] @ ps), (log @ [?c1]) @ ext)"
    and ps: "map tier_view ps =
       map (\<lambda>ta. (Some (PStr (fst ta)), Some (PInt (snd ta)))) enterprise_tiers"
    and pr: "product_requests ext = []"
    and pc: "price_requests ext =
       map (\<lambda>ta. (Some (PStr (''enterprise_'' @ fst ta)), snd ta * 100)) enterprise_tiers"
    by (elim exE conjE)
  have "create_enterprise_product api log =
       (Inr [(''product_id'', PStr p), (''pricing_tiers'', PList ([] @ ps)),
             (''type'', PStr ''enterprise'')], (log @ [?c1]) @ ext)"
    unfolding create_enterprise_product_def
    by (simp only: p run prod.case sum.case)
  then have "create_enterprise_product api log =
       (Inr [(''product_id'', PStr p), (''pricing_tiers'', PList ps),
             (''type'', PStr ''enterprise'')], log @ (?c1 # ext))"
    by simp
  moreover have "map tier_view ps =
       [(Some (PStr ''starter''), Some (PInt 1997)),
        (Some (PStr ''growth''), Some (PInt 2997)),
        (Some (PStr ''enterprise''), Some (PInt 4997))]"
    using ps by (simp add: enterprise_tiers_def)
  moreover have "product_requests (?c1 # ext) = [(Some (PStr ''enterprise''), None)]"
    by (simp add: pr)
  moreover have "price_requests (?c1 # ext) =
       [(Some (PStr ''enterprise_starter''), 199700),
        (Some (PStr ''enterprise_growth''), 299700),
        (Some (PStr ''enterprise_enterprise''), 499700)]"
    using pc by (simp add: enterprise_tiers_def)
  ultimately show ?thesis by (intro exI conjI)
qed

lemma individual_loop_ok:
  assumes "always_succeeds api"
  shows "\<exists>rs ext.
     individual_loop api ids acc log = (Inr (acc @ rs), log @ ext) \<and>
     map item_view rs = map (\<lambda>i. (Some (PInt i), Some (PInt (base_price i)))) ids \<and>
     product_requests ext =
       map (\<lambda>i. (Some (PStr ''individual_template''),
                  Some (PStr (get_category_for_template i)))) ids \<and>
     price_requests ext = map (\<lambda>i. (Some (PStr ''individual''), base_price i * 100)) ids"
proof (induction ids arbitrary: acc log)
  case Nil
  show ?case by simp
next
  case (Cons i rest)
  from individual_ok [OF assms, of i log]
  obtain r step where
    step: "create_individual_template_product api i log = (Inr r, log @ step)"
    and r: "item_view r = (Some (PInt i), Some (PInt (base_price i)))"
    and pr: "product_requests step =
       [(Some (PStr ''individual_template''), Some (PStr (get_category_for_template i)))]"
    and pc: "price_requests step = [(Some (PStr ''individual''), base_price i * 100)]"
    by (elim exE) (simp add: item_view_def)
  from Cons.IH [of "acc @ [r]" "log @ step"]
  obtain rs ext where
    run: "individual_loop api rest (acc @ [r]) (log @ step)
            = (Inr ((acc @ [r]) @ rs), (log @ step) @ ext)"
    and rs: "map item_view rs = map (\<lambda>i. (Some (PInt i), Some (PInt (base_price i)))) rest"
    and prs: "product_requests ext =
       map (\<lambda>i. (Some (PStr ''individual_template''),
                  Some (PStr (get_category_for_template i)))) rest"
    and pcs: "price_requests ext =
       map (\<lambda>i. (Some (PStr ''individual''), base_price i * 100)) rest"
    by (elim exE conjE)
  have "individual_loop api (i # rest) acc log = (Inr (acc @ (r # rs)), log @ (step @ ext))"
    by (simp add: step run)
  moreover have "map item_view (r # rs) =
       map (\<lambda>i. (Some (PInt i), Some (PInt (base_price i)))) (i # rest)"
    by (simp add: r rs)
  moreover have "product_requests (step @ ext) =
       map (\<lambda>i. (Some (PStr ''individual_template''),
                  Some (PStr (get_category_for_template i)))) (i # rest)"
    by (simp add: product_requests_append pr prs)
  moreover have "price_requests (step @ ext) =
       map (\<lambda>i. (Some (PStr ''individual''), base_price i * 100)) (i # rest)"
    by (simp add: price_requests_append pc pcs)
  ultimately show ?case by (intro exI conjI)
qed

lemma bundle_loop_ok:
  assumes "always_succeeds api"
  shows "\<exists>rs ext.
     bundle_loop api cats acc log = (Inr (acc @ rs), log @ ext) \<and>
     map bundle_view rs = map (\<lambda>c. (Some (PStr c), Some (PInt (bundle_price c)))) cats \<and>
     product_requests ext = map (\<lambda>c. (Some (PStr ''bundle''), Some (PStr c))) cats \<and>
     price_requests ext = map (\<lambda>c. (Some (PStr ''bundle''), bundle_price c * 100)) cats"
proof (induction cats arbitrary: acc log)
  case Nil
  show ?case by simp
next
  case (Cons c rest)
  from bundle_ok [OF assms, of c log]
  obtain r step where
    step: "create_bundle_product api c log = (Inr r, log @ step)"
    and r: "bundle_view r = (Some (PStr c), Some (PInt (bundle_price c)))"
    and pr: "product_requests step = [(Some (PStr ''bundle''), Some (PStr c))]"
    and pc: "price_requests step = [(Some (PStr ''bundle''), bundle_price c * 100)]"
    by (elim exE) (simp add: bundle_view_def)
  from Cons.IH [of "acc @ [r]" "log @ step"]
  obtain rs ext where
    run: "bundle_loop api rest (acc @ [r]) (log @ step)
            = (Inr ((acc @ [r]) @ rs), (log @ step) @ ext)"
    and rs: "map bundle_view rs = map (\<lambda>c. (Some (PStr c), Some (PInt (bundle_price c)))) rest"
    and prs: "product_requests ext = map (\<lambda>c. (Some (PStr ''bundle''), Some (PStr c))) rest"
    and pcs: "price_requests ext = map (\<lambda>c. (Some (PStr ''bundle''), bundle_price c * 100)) rest"
    by (elim exE conjE)
  have "bundle_loop api (c # rest) acc log = (Inr (acc @ (r # rs)), log @ (step @ ext))"
    by (simp add: step run)
  moreover have "map bundle_view (r # rs) =
       map (\<lambda>c. (Some (PStr c), Some (PInt (bundle_price c)))) (c # rest)"
    by (simp add: r rs)
  moreover have "product_requests (step @ ext) =
       map (\<lambda>c. (Some (PStr ''bundle''), Some (PStr c))) (c # rest)"
    by (simp add: product_requests_append pr prs)
  moreover have "price_requests (step @ ext) =
       map (\<lambda>c. (Some (PStr ''bundle''), bundle_price c * 100)) (c # rest)"
    by (simp add: price_requests_append pc pcs)
  ultimately show ?case by (intro exI conjI)
qed

lemma create_all_ok:
  assumes "always_succeeds api"
  shows "\<exists>res ext vault ent tiers.
     create_all_stripe_products api log = (Inr res, log @ ext) \<and>
     map item_view (individual_templates res) =
       map (\<lambda>i. (Some (PInt i), Some (PInt (base_price i)))) [1..487] \<and>
     map bundle_view (bundles res) =
       map (\<lambda>c. (Some (PStr c), Some (PInt (bundle_price c)))) categories \<and>
     vault_license res = Some vault \<and> map_of vault ''amount'' = Some (PInt 997) \<and>
     map subscription_view (subscriptions res) =
       [(Some (PStr ''monthly''), Some (PInt 47)), (Some (PStr ''annual''), Some (PInt 470))] \<and>
     enterprise res = [ent] \<and> map_of ent ''type'' = Some (PStr ''enterprise'') \<and>
     map_of ent ''pricing_tiers'' = Some (PList tiers) \<and>
     map tier_view tiers =
       [(Some (PStr ''starter''), Some (PInt 1997)),
        (Some (PStr ''growth''), Some (PInt 2997)),
        (Some (PStr ''enterprise''), Some (PInt 4997))] \<and>
     product_requests ext =
       map (\<lambda>i. (Some (PStr ''individual_template''),
                  Some (PStr (get_category_for_template i)))) [1..487]
       @ map (\<lambda>c. (Some (PStr ''bundle''), Some (PStr c))) categories
       @ [(Some (PStr ''vault_license''), None),
          (Some (PStr ''subscription''), None),
          (Some (PStr ''subscription''), None),
          (Some (PStr ''enterprise''), None)] \<and>
     price_requests ext =
       map (\<lambda>i. (Some (PStr ''individual''), base_price i * 100)) [1..487]
       @ map (\<lambda>c. (Some (PStr ''bundle''), bundle_price c * 100)) categories
       @ [(Some (PStr ''vault''), 99700),
          (Some (PStr ''subscription''), 4700),
          (Some (PStr ''subscription''), 47000),
          (Some (PStr ''enterprise_starter''), 199700),
          (Some (PStr ''enterprise_growth''), 299700),
          (Some (PStr ''enterprise_enterprise''), 499700)]"
proof -
  from individual_loop_ok [OF assms, of "[1..487]" "[]" log]
  obtain items e1 where
    s1: "individual_loop api [1..487] [] log = (Inr items, log @ e1)"
    and items: "map item_view items =
       map (\<lambda>i. (Some (PInt i), Some (PInt (base_price i)))) [1..487]"
    and pr1: "product_requests e1 =
       map (\<lambda>i. (Some (PStr ''individual_template''),
                  Some (PStr (get_category_for_template i)))) [1..487]"
    and pc1: "price_requests e1 =
       map (\<lambda>i. (Some (PStr ''individual''), base_price i * 100)) [1..487]"
    by (elim exE conjE) (simp only: append_Nil)
  from bundle_loop_ok [OF assms, of categories "[]" "log @ e1"]
  obtain bs e2 where
    s2: "bundle_loop api categories [] (log @ e1) = (Inr bs, (log @ e1) @ e2)"
    and bs: "map bundle_view bs =
       map (\<lambda>c. (Some (PStr c), Some (PInt (bundle_price c)))) categories"
    and pr2: "product_requests e2 = map (\<lambda>c. (Some (PStr ''bundle''), Some (PStr c))) categories"
    and pc2: "price_requests e2 =
       map (\<lambda>c. (Some (PStr ''bundle''), bundle_price c * 100)) categories"
    by (elim exE conjE) (simp only: append_Nil)
  from vault_ok [OF assms, of "(log @ e1) @ e2"]
  obtain v e3 where
    s3: "create_vault_license_product api ((log @ e1) @ e2) = (Inr v, ((log @ e1) @ e2) @ e3)"
    and v: "map_of v ''amount'' = Some (PInt 997)"
    and pr3: "product_requests e3 = [(Some (PStr ''vault_license''), None)]"
    and pc3: "price_requests e3 = [(Some (PStr ''vault''), 99700)]"
    by (elim exE) simp
  have monthly: "map_of amounts ''monthly'' = Some 47"
    and annual: "map_of amounts ''annual'' = Some 470"
    by (simp_all add: amounts_def)
  from subscription_ok [OF assms monthly, of "((log @ e1) @ e2) @ e3"]
  obtain m e4 where
    s4: "create_subscription_product api ''monthly'' (((log @ e1) @ e2) @ e3)
           = (Inr m, (((log @ e1) @ e2) @ e3) @ e4)"
    and m: "subscription_view m = (Some (PStr ''monthly''), Some (PInt 47))"
    and pr4: "product_requests e4 = [(Some (PStr ''subscription''), None)]"
    and pc4: "price_requests e4 = [(Some (PStr ''subscription''), 4700)]"
    by (elim exE) (simp add: subscription_view_def)
  from subscription_ok [OF assms annual, of "(((log @ e1) @ e2) @ e3) @ e4"]
  obtain a e5 where
    s5: "create_subscription_product api ''annual'' ((((log @ e1) @ e2) @ e3) @ e4)
           = (Inr a, ((((log @ e1) @ e2) @ e3) @ e4) @ e5)"
    and a: "subscription_view a = (Some (PStr ''annual''), Some (PInt 470))"
    and pr5: "product_requests e5 = [(Some (PStr ''subscription''), None)]"
    and pc5: "price_requests e5 = [(Some (PStr ''subscription''), 47000)]"
    by (elim exE) (simp add: subscription_view_def)
  from enterprise_ok [OF assms, of "((((log @ e1) @ e2) @ e3) @ e4) @ e5"]
  obtain p ps e6 where
    s6: "create_enterprise_product api (((((log @ e1) @ e2) @ e3) @ e4) @ e5)
           = (Inr [(''product_id'', PStr p), (''pricing_tiers'', PList ps),
                   (''type'', PStr ''enterprise'')],
              (((((log @ e1) @ e2) @ e3) @ e4) @ e5) @ e6)"
    and ps: "map tier_view ps =
       [(Some (PStr ''starter''), Some (PInt 1997)),
        (Some (PStr ''growth''), Some (PInt 2997)),
        (Some (PStr ''enterprise''), Some (PInt 4997))]"
    and pr6: "product_requests e6 = [(Some (PStr ''enterprise''), None)]"
    and pc6: "price_requests e6 =
       [(Some (PStr ''enterprise_starter''), 199700),
        (Some (PStr ''enterprise_growth''), 299700),
        (Some (PStr ''enterprise_enterprise''), 499700)]"
    by (elim exE conjE)
  let ?ent = "[(''product_id'', PStr p), (''pricing_tiers'', PList ps),
               (''type'', PStr ''enterprise'')]"
  let ?res = "\<lparr>individual_templates = items, bundles = bs, subscriptions = [m, a],
               enterprise = [] @ [?ent], vault_license = Some v\<rparr>"
  let ?ext = "e1 @ e2 @ e3 @ e4 @ e5 @ e6"
  have "create_all_stripe_products api log =
          (Inr ?res, (((((log @ e1) @ e2) @ e3) @ e4) @ e5) @ e6)"
    unfolding create_all_stripe_products_def
    by (simp only: s1 s2 s3 s4 s5 s6 prod.case sum.case)
  then have run: "create_all_stripe_products api log = (Inr ?res, log @ ?ext)"
    by simp
  have "map item_view (individual_templates ?res) =
       map (\<lambda>i. (Some (PInt i), Some (PInt (base_price i)))) [1..487]"
    using items by simp
  moreover have "map bundle_view (bundles ?res) =
       map (\<lambda>c. (Some (PStr c), Some (PInt (bundle_price c)))) categories"
    using bs by simp
  moreover have "vault_license ?res = Some v" by simp
  moreover have "map subscription_view (subscriptions ?res) =
       [(Some (PStr ''monthly''), Some (PInt 47)), (Some (PStr ''annual''), Some (PInt 470))]"
    by (simp add: m a)
  moreover have "enterprise ?res = [?ent]" by simp
  moreover have "map_of ?ent ''type'' = Some (PStr ''enterprise'')" by simp
  moreover have "map_of ?ent ''pricing_tiers'' = Some (PList ps)" by simp
  moreover have "product_requests ?ext =
       map (\<lambda>i. (Some (PStr ''individual_template''),
                  Some (PStr (get_category_for_template i)))) [1..487]
       @ map (\<lambda>c. (Some (PStr ''bundle''), Some (PStr c))) categories
       @ [(Some (PStr ''vault_license''), None),
          (Some (PStr ''subscription''), None),
          (Some (PStr ''subscription''), None),
          (Some (PStr ''enterprise''), None)]"
    by (simp only: product_requests_append pr1 pr2 pr3 pr4 pr5 pr6 append_Cons append_Nil)
  moreover have "price_requests ?ext =
       map (\<lambda>i. (Some (PStr ''individual''), base_price i * 100)) [1..487]
       @ map (\<lambda>c. (Some (PStr ''bundle''), bundle_price c * 100)) categories
       @ [(Some (PStr ''vault''), 99700),
          (Some (PStr ''subscription''), 4700),
          (Some (PStr ''subscription''), 47000),
          (Some (PStr ''enterprise_starter''), 199700),
          (Some (PStr ''enterprise_growth''), 299700),
          (Some (PStr ''enterprise_enterprise''), 499700)]"
    by (simp only: price_requests_append pc1 pc2 pc3 pc4 pc5 pc6 append_Cons append_Nil)
  ultimately show ?thesis using run v ps by (intro exI conjI)
qed

lemma individual_record:
  assumes "fst (create_individual_template_product api t log) = Inr r"
  shows "map_of r ''template_id'' = Some (PInt t) \<and>
         map_of r ''amount'' = Some (PInt (base_price t))"
  using assms unfolding create_individual_template_product_def
  by (auto split: prod.splits sum.splits)

lemma bundle_record:
  assumes "fst (create_bundle_product api category log) = Inr r"
  shows "map_of r ''category'' = Some (PStr category) \<and>
         map_of r ''amount'' = Some (PInt (bundle_price category))"
  using assms unfolding create_bundle_product_def
  by (auto split: prod.splits sum.splits)

lemma vault_record:
  assumes "fst (create_vault_license_product api log) = Inr r"
  shows "map_of r ''amount'' = Some (PInt 997)"
  using assms unfolding create_vault_license_product_def
  by (auto split: prod.splits sum.splits)

lemma subscription_record:
  assumes "fst (create_subscription_product api interval log) = Inr r"
  shows "\<exists>amount. map_of amounts interval = Some amount \<and>
           map_of r ''interval'' = Some (PStr interval) \<and>
           map_of r ''amount'' = Some (PInt amount)"
  using assms unfolding create_subscription_product_def
  by (auto split: prod.splits sum.splits option.splits)

lemma enterprise_prices_record:
  assumes "fst (enterprise_prices api product_id tiers prices log) = Inr ps"
  shows "map tier_view ps =
           map tier_view prices @ map (\<lambda>ta. (Some (PStr (fst ta)), Some (PInt (snd ta)))) tiers"
  using assms
proof (induction tiers arbitrary: prices log)
  case Nil
  then show ?case by simp
next
  case (Cons ta rest)
  then show ?case
    by (cases ta) (auto split: prod.splits sum.splits)
qed

lemma enterprise_record:
  assumes "fst (create_enterprise_product api log) = Inr r"
  shows "\<exists>ps. map_of r ''pricing_tiers'' = Some (PList ps) \<and>
           map tier_view ps =
             [(Some (PStr ''starter''), Some (PInt 1997)),
              (Some (PStr ''growth''), Some (PInt 2997)),
              (Some (PStr ''enterprise''), Some (PInt 4997))]"
proof -
  obtain a l1 where r1: "stripe_request api (Product_create
                ''Enterprise Template Development + Consulting''
                ''Custom template creation + white-label licensing + dedicated support + implementation consulting''
                [(''type'', PStr ''enterprise''),
                 (''includes'', PStr ''custom_templates,white_label,consulting,implementation'')])
             log = (a, l1)" by fastforce
  show ?thesis
  proof (cases a)
    case (Inl e)
    then show ?thesis using assms r1
      unfolding create_enterprise_product_def by (simp only: prod.case sum.case fst_conv) simp 
  next
    case (Inr p)
    obtain b l2 where r2: "enterprise_prices api p enterprise_tiers [] l1 = (b, l2)"
      by fastforce
    show ?thesis
    proof (cases b)
      case (Inl e)
      then show ?thesis using assms r1 r2 Inr
        unfolding create_enterprise_product_def by (simp only: prod.case sum.case fst_conv) simp 
    next
      case ps: (Inr ps)
      have "map tier_view ps =
           map tier_view [] @ map (\<lambda>ta. (Some (PStr (fst ta)), Some (PInt (snd ta)))) enterprise_tiers"
        using enterprise_prices_record [of api p enterprise_tiers "[]" l1 ps] r2 ps by simp
      moreover have "r = [(''product_id'', PStr p), (''pricing_tiers'', PList ps),
                     (''type'', PStr ''enterprise'')]"
        using assms r1 r2 Inr ps
        unfolding create_enterprise_product_def by (simp only: prod.case sum.case fst_conv) simp 
      ultimately show ?thesis by (simp add: enterprise_tiers_def)
    qed
  qed
qed

lemma faithful_return: "faithful api log (Inr x, log)"
  by (simp add: faithful_def)

lemma faithful_request: "faithful api log (stripe_request api c log)"
proof (cases "api log c")
  case (Inl reason)
  then have "fails_last api log [c] (StripeError reason)"
    unfolding fails_last_def by (intro exI [of _ "[]"] exI [of _ c] exI [of _ reason]) simp
  then show ?thesis using Inl by (simp add: faithful_def stripe_request_def)
next
  case (Inr ident)
  then show ?thesis by (simp add: faithful_def stripe_request_def)
qed

lemma faithful_bind:
  assumes first: "faithful api log r"
    and rest: "\<And>x. fst r = Inr x \<Longrightarrow> faithful api (snd r) (g x (snd r))"
  shows "faithful api log (case r of (Inl e, l) \<Rightarrow> (Inl e, l) | (Inr x, l) \<Rightarrow> g x l)"
proof -
  obtain a l where r: "r = (a, l)" by (cases r)
  from first obtain ext1 where l: "l = log @ ext1"
    and o1: "case a of Inr x \<Rightarrow> all_ok api log ext1 | Inl e \<Rightarrow> fails_last api log ext1 e"
    unfolding faithful_def r by auto
  show ?thesis
  proof (cases a)
    case (Inl e)
    then show ?thesis using first unfolding faithful_def by (simp add: r)
  next
    case (Inr x)
    from rest [of x] have second: "faithful api l (g x l)" by (simp add: r Inr)
    then obtain ext2 where l2: "snd (g x l) = l @ ext2"
      and o2: "case fst (g x l) of Inr y \<Rightarrow> all_ok api l ext2
                 | Inl e \<Rightarrow> fails_last api l ext2 e"
      unfolding faithful_def by auto
    have ok1: "all_ok api log ext1" using o1 Inr by simp
    have "snd (g x l) = log @ (ext1 @ ext2)" using l l2 by simp
    moreover have "case fst (g x l) of Inr y \<Rightarrow> all_ok api log (ext1 @ ext2)
                 | Inl e \<Rightarrow> fails_last api log (ext1 @ ext2) e"
    proof (cases "fst (g x l)")
      case (Inl e)
      with o2 obtain pre c reason where "ext2 = pre @ [c]" "all_ok api l pre"
        "api (l @ pre) c = Inl reason" "e = StripeError reason"
        unfolding fails_last_def by auto
      then have "ext1 @ ext2 = (ext1 @ pre) @ [c] \<and> all_ok api log (ext1 @ pre) \<and>
                 api (log @ (ext1 @ pre)) c = Inl reason \<and> e = StripeError reason"
        using ok1 l by (simp add: all_ok_append)
      then have "fails_last api log (ext1 @ ext2) e"
        unfolding fails_last_def by blast
      then show ?thesis using Inl by simp
    next
      case (Inr y)
      with o2 have "all_ok api l ext2" by simp
      then show ?thesis using Inr ok1 l by (simp add: all_ok_append)
    qed
    ultimately have "faithful api log (g x l)"
      unfolding faithful_def by blast
    then show ?thesis by (simp add: r Inr)
  qed
qed

lemma faithful_individual:
  "faithful api log (create_individual_template_product api t log)"
  unfolding create_individual_template_product_def
  by (intro faithful_bind faithful_request faithful_return)

lemma faithful_bundle:
  "faithful api log (create_bundle_product api category log)"
  unfolding create_bundle_product_def
  by (intro faithful_bind faithful_request faithful_return)

lemma faithful_vault:
  "faithful api log (create_vault_license_product api log)"
  unfolding create_vault_license_product_def
  by (intro faithful_bind faithful_request faithful_return)

lemma faithful_subscription:
  assumes "map_of amounts interval = Some amount"
  shows "faithful api log (create_subscription_product api interval log)"
  unfolding create_subscription_product_def assms option.case
  by (intro faithful_bind faithful_request faithful_return)

lemma faithful_enterprise_prices:
  "faithful api log (enterprise_prices api product_id tiers prices log)"
proof (induction tiers arbitrary: prices log)
  case Nil
  show ?case by (simp add: faithful_return)
next
  case (Cons ta rest)
  obtain tier amount where ta: "ta = (tier, amount)" by (cases ta)
  show ?case
    unfolding ta enterprise_prices.simps
    by (intro faithful_bind faithful_request Cons.IH)
qed

lemma faithful_enterprise:
  "faithful api log (create_enterprise_product api log)"
  unfolding create_enterprise_product_def
  by (intro faithful_bind faithful_request faithful_enterprise_prices faithful_return)

lemma faithful_individual_loop:
  "faithful api log (individual_loop api ids acc log)"
proof (induction ids arbitrary: acc log)
  case Nil
  show ?case by (simp add: faithful_return)
next
  case (Cons i rest)
  show ?case
    unfolding individual_loop.simps
    by (intro faithful_bind faithful_individual Cons.IH)
qed

lemma faithful_bundle_loop:
  "faithful api log (bundle_loop api cats acc log)"
proof (induction cats arbitrary: acc log)
  case Nil
  show ?case by (simp add: faithful_return)
next
  case (Cons c rest)
  show ?case
    unfolding bundle_loop.simps
    by (intro faithful_bind faithful_bundle Cons.IH)
qed

lemma faithful_create_all:
  "faithful api log (create_all_stripe_products api log)"
proof -
  have monthly: "map_of amounts ''monthly'' = Some 47"
    and annual: "map_of amounts ''annual'' = Some 470"
    by (simp_all add: amounts_def)
  show ?thesis
    unfolding create_all_stripe_products_def
    by (intro faithful_bind faithful_individual_loop faithful_bundle_loop faithful_vault
          faithful_subscription [OF monthly] faithful_subscription [OF annual]
          faithful_enterprise faithful_return)
qed

subsection \<open>Category mapper\<close>

lemma category_scan_find:
  "category_scan ranges t =
     (case find (in_range t) ranges of
        Some entry \<Rightarrow> snd entry
      | None \<Rightarrow> ''Miscellaneous'')"
  by (induction ranges t rule: category_scan.induct) (simp_all add: in_range_def)

lemma category_scan_mem:
  "category_scan ranges t \<in> snd ` set ranges \<union> {''Miscellaneous''}"
  by (induction ranges t rule: category_scan.induct) auto

lemma get_category_cases:
  "get_category_for_template t =
     (if 1 \<le> t \<and> t \<le> 60 then ''Corporate & Enterprise''
      else if 61 \<le> t \<and> t \<le> 132 then ''Financial Services''
      else if 133 \<le> t \<and> t \<le> 192 then ''E-commerce & Retail''
      else if 193 \<le> t \<and> t \<le> 252 then ''Education & Training''
      else if 253 \<le> t \<and> t \<le> 272 then ''Healthcare & Wellness''
      else if 273 \<le> t \<and> t \<le> 312 then ''Community Impact''
      else if 313 \<le> t \<and> t \<le> 372 then ''Creative & Media''
      else if 373 \<le> t \<and> t \<le> 432 then ''Construction & Real Estate''
      else if 433 \<le> t \<and> t \<le> 467 then ''Technology & SaaS''
      else if 468 \<le> t \<and> t \<le> 487 then ''Research & Development''
      else ''Miscellaneous'')"
  by (simp add: get_category_for_template_def category_mapping_def)

lemma matching_ranges_count:
  "length (filter (in_range t) category_mapping) = (if 1 \<le> t \<and> t \<le> 487 then 1 else 0)"
  by (simp add: category_mapping_def in_range_def)

lemma miscellaneous_iff:
  "(get_category_for_template t = ''Miscellaneous'') = (t < 1 \<or> 487 < t)"
  unfolding get_category_cases by (simp split: if_splits) arith

lemma ranges_pairwise_disjoint:
  "\<forall>r \<in> set category_mapping. \<forall>r' \<in> set category_mapping.
     r \<noteq> r' \<longrightarrow> \<not> (\<exists>t. in_range t r \<and> in_range t r')"
  by (simp add: category_mapping_def in_range_def)

lemma ranges_cover:
  "(\<Union>r \<in> set category_mapping. {fst (fst r) .. snd (fst r)}) = {1 .. 487}"
  by (auto simp add: category_mapping_def)

lemma base_price_bounds: "25 \<le> base_price t \<and> base_price t \<le> 49"
proof -
  have "0 \<le> t mod 25" and "t mod 25 < 25" by simp_all
  then show ?thesis unfolding base_price_def by arith
qed

lemma stripe_ok_always: "always_succeeds stripe_ok"
  by (simp add: always_succeeds_def stripe_ok_def)

section \<open>Claims\<close>

text \<open>
  C1. For every integer id, the category lookup scans the configured ranges in declared
  order and returns the category of the first range with \<open>lower \<le> id \<le> upper\<close>, and
  the string \<open>Miscellaneous\<close> when no range matches; this holds of the scan over any list of
  ranges and of the lookup over the configured ones. With the configured ranges, 61 maps
  to Financial Services, 5 to Corporate \& Enterprise and 500 to Miscellaneous.
\<close>

theorem category_lookup_first_match:
  "category_scan ranges template_id =
     (case find (in_range template_id) ranges of
        Some entry \<Rightarrow> snd entry
      | None \<Rightarrow> ''Miscellaneous'') \<and>
   get_category_for_template template_id =
     (case find (in_range template_id) category_mapping of
        Some entry \<Rightarrow> snd entry
      | None \<Rightarrow> ''Miscellaneous'') \<and>
   get_category_for_template 61 = ''Financial Services'' \<and>
   get_category_for_template 5 = ''Corporate & Enterprise'' \<and>
   get_category_for_template 500 = ''Miscellaneous''"
proof (intro conjI)
  show "category_scan ranges template_id =
     (case find (in_range template_id) ranges of
        Some entry \<Rightarrow> snd entry
      | None \<Rightarrow> ''Miscellaneous'')"
    by (rule category_scan_find)
  show "get_category_for_template template_id =
     (case find (in_range template_id) category_mapping of
        Some entry \<Rightarrow> snd entry
      | None \<Rightarrow> ''Miscellaneous'')"
    unfolding get_category_for_template_def by (rule category_scan_find)
  show "get_category_for_template 61 = ''Financial Services''"
    by (simp add: get_category_cases)
  show "get_category_for_template 5 = ''Corporate & Enterprise''"
    by (simp add: get_category_cases)
  show "get_category_for_template 500 = ''Miscellaneous''"
    by (simp add: get_category_cases)
qed

text \<open>
  C4. The configured ranges are the ten listed ones; no id lies in two different ranges;
  their union is the interval from 1 to 487; an id in that interval matches exactly one
  range and any other id matches none; and the lookup returns \<open>Miscellaneous\<close> exactly
  for the ids outside the interval.
\<close>

theorem category_ranges_partition:
  "map fst category_mapping =
     [(1, 60), (61, 132), (133, 192), (193, 252), (253, 272),
      (273, 312), (313, 372), (373, 432), (433, 467), (468, 487)] \<and>
   (\<forall>r \<in> set category_mapping. \<forall>r' \<in> set category_mapping.
      r \<noteq> r' \<longrightarrow> \<not> (\<exists>t. in_range t r \<and> in_range t r')) \<and>
   (\<Union>r \<in> set category_mapping. {fst (fst r) .. snd (fst r)}) = {1 .. 487} \<and>
   (\<forall>t. length (filter (in_range t) category_mapping) = (if 1 \<le> t \<and> t \<le> 487 then 1 else 0)) \<and>
   (\<forall>t. (get_category_for_template t = ''Miscellaneous'') = (t < 1 \<or> 487 < t))"
proof (intro conjI allI)
  show "map fst category_mapping =
     [(1, 60), (61, 132), (133, 192), (193, 252), (253, 272),
      (273, 312), (313, 372), (373, 432), (433, 467), (468, 487)]"
    by (simp add: category_mapping_def)
  show "\<forall>r \<in> set category_mapping. \<forall>r' \<in> set category_mapping.
      r \<noteq> r' \<longrightarrow> \<not> (\<exists>t. in_range t r \<and> in_range t r')"
    by (rule ranges_pairwise_disjoint)
  show "(\<Union>r \<in> set category_mapping. {fst (fst r) .. snd (fst r)}) = {1 .. 487}"
    by (rule ranges_cover)
  show "length (filter (in_range t) category_mapping) = (if 1 \<le> t \<and> t \<le> 487 then 1 else 0)"
    for t by (rule matching_ranges_count)
  show "(get_category_for_template t = ''Miscellaneous'') = (t < 1 \<or> 487 < t)"
    for t by (rule miscellaneous_iff)
qed

theorem category_ranges_partition_witness:
  "((1, 60), ''Corporate & Enterprise'') \<in> set category_mapping \<and>
   ((61, 132), ''Financial Services'') \<in> set category_mapping \<and>
   \<not> (in_range 61 ((1, 60), ''Corporate & Enterprise'') \<and>
      in_range 61 ((61, 132), ''Financial Services'')) \<and>
   length (filter (in_range 61) category_mapping) = 1 \<and>
   get_category_for_template 61 \<noteq> ''Miscellaneous''"
proof -
  have m1: "((1, 60), ''Corporate & Enterprise'') \<in> set category_mapping"
    and m2: "((61, 132), ''Financial Services'') \<in> set category_mapping"
    by (simp_all add: category_mapping_def)
  have ne: "((1::int, 60::int), ''Corporate & Enterprise'') \<noteq> ((61, 132), ''Financial Services'')"
    by simp
  note part = category_ranges_partition
  note disjoint = part [THEN conjunct2, THEN conjunct1, rule_format, OF m1 m2 ne]
  note count = part [THEN conjunct2, THEN conjunct2, THEN conjunct2, THEN conjunct1,
                     rule_format, of 61]
  note misc = part [THEN conjunct2, THEN conjunct2, THEN conjunct2, THEN conjunct2,
                    rule_format, of 61]
  have "\<not> (in_range 61 ((1, 60), ''Corporate & Enterprise'') \<and>
      in_range 61 ((61, 132), ''Financial Services''))"
    using disjoint by (rule contrapos_nn) (rule exI)
  moreover have "length (filter (in_range 61) category_mapping) = 1"
    using count by simp
  moreover have "get_category_for_template 61 \<noteq> ''Miscellaneous''"
    using misc by simp
  ultimately show ?thesis using m1 m2 by (intro conjI)
qed

text \<open>
  C9. The category lookup is a total function of the integers: for every id, also one below 1
  or above 487, it returns a string, which is the category of one of the ranges or
  \<open>Miscellaneous\<close>. It takes no request log and returns none, and its result type has no
  error: the source function compares integers and returns, and does nothing else.
\<close>

theorem category_lookup_total:
  "category_scan ranges template_id \<in> snd ` set ranges \<union> {''Miscellaneous''} \<and>
   get_category_for_template template_id \<in> snd ` set category_mapping \<union> {''Miscellaneous''} \<and>
   get_category_for_template 0 = ''Miscellaneous'' \<and>
   get_category_for_template (- 7) = ''Miscellaneous'' \<and>
   get_category_for_template 488 = ''Miscellaneous''"
proof (intro conjI)
  show "category_scan ranges template_id \<in> snd ` set ranges \<union> {''Miscellaneous''}"
    by (rule category_scan_mem)
  show "get_category_for_template template_id
          \<in> snd ` set category_mapping \<union> {''Miscellaneous''}"
    unfolding get_category_for_template_def by (rule category_scan_mem)
  show "get_category_for_template 0 = ''Miscellaneous''"
    by (simp add: get_category_cases)
  show "get_category_for_template (- 7) = ''Miscellaneous''"
    by (simp add: get_category_cases)
  show "get_category_for_template 488 = ''Miscellaneous''"
    by (simp add: get_category_cases)
qed

text \<open>
  C10. For every integer template id the price of an individual template,
  \<open>25 + template_id mod 25\<close>, lies between 25 and 49, both attained, and is never the 50 of
  the comment \<^verbatim>\<open>$25-$50 range\<close>; the amount of every record the step returns is that
  price.
\<close>

theorem individual_price_range:
  "base_price template_id = 25 + template_id mod 25 \<and>
   25 \<le> base_price template_id \<and> base_price template_id \<le> 49 \<and>
   base_price template_id \<noteq> 50 \<and>
   base_price 25 = 25 \<and> base_price 24 = 49 \<and>
   (\<forall>r. fst (create_individual_template_product api template_id log) = Inr r \<longrightarrow>
      (\<exists>a. map_of r ''amount'' = Some (PInt a) \<and> 25 \<le> a \<and> a \<le> 49))"
proof -
  have b: "25 \<le> base_price template_id \<and> base_price template_id \<le> 49"
    by (rule base_price_bounds)
  have "\<exists>a. map_of r ''amount'' = Some (PInt a) \<and> 25 \<le> a \<and> a \<le> 49"
    if "fst (create_individual_template_product api template_id log) = Inr r" for r
    using individual_record [OF that] b by blast
  moreover have "base_price 25 = 25" and "base_price 24 = 49"
    by (simp_all add: base_price_def)
  moreover have "base_price template_id = 25 + template_id mod 25"
    by (simp add: base_price_def)
  moreover have "base_price template_id \<noteq> 50"
    using b by arith
  ultimately show ?thesis using b by blast
qed

theorem individual_price_range_witness:
  "fst (create_individual_template_product stripe_ok 24 []) =
     Inr [(''product_id'', PStr ''id_0''), (''price_id'', PStr ''id_1''),
          (''template_id'', PInt 24), (''amount'', PInt 49),
          (''stripe_url'', PStr ''https://buy.stripe.com/test_id_1'')] \<and>
   (\<exists>a. map_of [(''product_id'', PStr ''id_0''), (''price_id'', PStr ''id_1''),
                 (''template_id'', PInt 24), (''amount'', PInt 49),
                 (''stripe_url'', PStr ''https://buy.stripe.com/test_id_1'')] ''amount''
          = Some (PInt a) \<and> 25 \<le> a \<and> a \<le> 49)"
proof -
  have run: "fst (create_individual_template_product stripe_ok 24 []) =
     Inr [(''product_id'', PStr ''id_0''), (''price_id'', PStr ''id_1''),
          (''template_id'', PInt 24), (''amount'', PInt 49),
          (''stripe_url'', PStr ''https://buy.stripe.com/test_id_1'')]"
    by code_simp
  from individual_price_range [of 24 stripe_ok "[]"] run
  show ?thesis by blast
qed

lemma stripe_request_answer:
  assumes "always_succeeds api"
  shows "\<exists>ident. api log c = Inr ident \<and> stripe_request api c log = (Inr ident, log @ [c])"
proof -
  obtain ident where "api log c = Inr ident"
    using assms unfolding always_succeeds_def by blast
  then show ?thesis by (simp add: stripe_request_def)
qed

lemma individual_step:
  assumes "always_succeeds api"
  shows "\<exists>c1 c2 product_id price_id.
     c1 = Product_create (''Business Template #'' @ format_03d t)
            ''AI-powered business template with automated setup and monetization strategies''
            [(''template_id'', PInt t),
             (''category'', PStr (get_category_for_template t)),
             (''type'', PStr ''individual_template'')] \<and>
     c2 = Price_create product_id (base_price t * 100) ''usd'' None
            [(''template_id'', PInt t), (''pricing_tier'', PStr ''individual'')] \<and>
     api log c1 = Inr product_id \<and>
     api (log @ [c1]) c2 = Inr price_id \<and>
     create_individual_template_product api t log =
       (Inr [(''product_id'', PStr product_id), (''price_id'', PStr price_id),
             (''template_id'', PInt t), (''amount'', PInt (base_price t)),
             (''stripe_url'', PStr (''https://buy.stripe.com/test_'' @ price_id))],
        log @ [c1, c2])"
proof -
  let ?c1 = "Product_create (''Business Template #'' @ format_03d t)
                ''AI-powered business template with automated setup and monetization strategies''
                [(''template_id'', PInt t),
                 (''category'', PStr (get_category_for_template t)),
                 (''type'', PStr ''individual_template'')]"
  obtain p where ap: "api log ?c1 = Inr p"
    and p: "stripe_request api ?c1 log = (Inr p, log @ [?c1])"
    using stripe_request_answer [OF assms] by blast
  let ?c2 = "Price_create p (base_price t * 100) ''usd'' None
                 [(''template_id'', PInt t), (''pricing_tier'', PStr ''individual'')]"
  obtain q where aq: "api (log @ [?c1]) ?c2 = Inr q"
    and q: "stripe_request api ?c2 (log @ [?c1]) = (Inr q, (log @ [?c1]) @ [?c2])"
    using stripe_request_answer [OF assms] by blast
  have "create_individual_template_product api t log =
       (Inr [(''product_id'', PStr p), (''price_id'', PStr q),
             (''template_id'', PInt t), (''amount'', PInt (base_price t)),
             (''stripe_url'', PStr (''https://buy.stripe.com/test_'' @ q))],
        (log @ [?c1]) @ [?c2])"
    unfolding create_individual_template_product_def
    by (simp only: p q prod.case sum.case)
  then have "create_individual_template_product api t log =
       (Inr [(''product_id'', PStr p), (''price_id'', PStr q),
             (''template_id'', PInt t), (''amount'', PInt (base_price t)),
             (''stripe_url'', PStr (''https://buy.stripe.com/test_'' @ q))],
        log @ [?c1, ?c2])"
    by (simp only: append_assoc append_Cons append_Nil)
  with ap aq show ?thesis by blast
qed

lemma inventory_length: "length [1..487] = 487"
  by (simp only: length_upto)

lemma base_price_fun: "base_price = (\<lambda>i. 25 + i mod 25)"
  by (rule ext) (simp add: base_price_def)

lemma bundle_price_fun: "bundle_price = (\<lambda>c. 199 + 10 * int (length c))"
  by (rule ext) (simp add: bundle_price_def)

text \<open>
  C5. Against a service that answers every request, the per-item step for any integer id
  issues exactly two requests: a product request whose metadata holds the id, the category
  of the category mapper and the type \<open>individual_template\<close>, and a price request for the
  product just created, of \<open>(25 + id mod 25) * 100\<close> cents, whose metadata holds the id
  and the tier \<open>individual\<close>. The record it returns holds the two ids the service answered,
  the id of the template and the amount \<open>25 + id mod 25\<close>. Catalog generation runs the step
  for the ids 1 to 487 in order: these are its first 487 product requests, its first 487
  price requests and its 487 item records.
\<close>

theorem individual_step_provisions:
  assumes "always_succeeds api"
  shows "(\<exists>c1 c2 product_id price_id.
       c1 = Product_create (''Business Template #'' @ format_03d template_id)
              ''AI-powered business template with automated setup and monetization strategies''
              [(''template_id'', PInt template_id),
               (''category'', PStr (get_category_for_template template_id)),
               (''type'', PStr ''individual_template'')] \<and>
       c2 = Price_create product_id ((25 + template_id mod 25) * 100) ''usd'' None
              [(''template_id'', PInt template_id), (''pricing_tier'', PStr ''individual'')] \<and>
       api log c1 = Inr product_id \<and>
       api (log @ [c1]) c2 = Inr price_id \<and>
       create_individual_template_product api template_id log =
         (Inr [(''product_id'', PStr product_id), (''price_id'', PStr price_id),
               (''template_id'', PInt template_id),
               (''amount'', PInt (25 + template_id mod 25)),
               (''stripe_url'', PStr (''https://buy.stripe.com/test_'' @ price_id))],
          log @ [c1, c2])) \<and>
     (\<exists>res ext.
       create_all_stripe_products api log = (Inr res, log @ ext) \<and>
       map item_view (individual_templates res) =
         map (\<lambda>i. (Some (PInt i), Some (PInt (25 + i mod 25)))) [1..487] \<and>
       take 487 (product_requests ext) =
         map (\<lambda>i. (Some (PStr ''individual_template''),
                    Some (PStr (get_category_for_template i)))) [1..487] \<and>
       take 487 (price_requests ext) =
         map (\<lambda>i. (Some (PStr ''individual''), (25 + i mod 25) * 100)) [1..487])"
proof (rule conjI)
  show "\<exists>c1 c2 product_id price_id.
       c1 = Product_create (''Business Template #'' @ format_03d template_id)
              ''AI-powered business template with automated setup and monetization strategies''
              [(''template_id'', PInt template_id),
               (''category'', PStr (get_category_for_template template_id)),
               (''type'', PStr ''individual_template'')] \<and>
       c2 = Price_create product_id ((25 + template_id mod 25) * 100) ''usd'' None
              [(''template_id'', PInt template_id), (''pricing_tier'', PStr ''individual'')] \<and>
       api log c1 = Inr product_id \<and>
       api (log @ [c1]) c2 = Inr price_id \<and>
       create_individual_template_product api template_id log =
         (Inr [(''product_id'', PStr product_id), (''price_id'', PStr price_id),
               (''template_id'', PInt template_id),
               (''amount'', PInt (25 + template_id mod 25)),
               (''stripe_url'', PStr (''https://buy.stripe.com/test_'' @ price_id))],
          log @ [c1, c2])"
    using individual_step [OF assms, of template_id log] unfolding base_price_def .
next
  from create_all_ok [OF assms, of log]
  obtain res ext where run: "create_all_stripe_products api log = (Inr res, log @ ext)"
    and items: "map item_view (individual_templates res) =
       map (\<lambda>i. (Some (PInt i), Some (PInt (base_price i)))) [1..487]"
    and pr: "\<exists>rest. product_requests ext =
       map (\<lambda>i. (Some (PStr ''individual_template''),
                  Some (PStr (get_category_for_template i)))) [1..487] @ rest"
    and pc: "\<exists>rest. price_requests ext =
       map (\<lambda>i. (Some (PStr ''individual''), base_price i * 100)) [1..487] @ rest"
    by (elim exE conjE) blast
  have "take 487 (product_requests ext) =
         map (\<lambda>i. (Some (PStr ''individual_template''),
                    Some (PStr (get_category_for_template i)))) [1..487]"
    using pr by (elim exE) (simp only: take_append length_map inventory_length, simp)
  moreover have "take 487 (price_requests ext) =
         map (\<lambda>i. (Some (PStr ''individual''), base_price i * 100)) [1..487]"
    using pc by (elim exE) (simp only: take_append length_map inventory_length, simp)
  ultimately show "\<exists>res ext.
       create_all_stripe_products api log = (Inr res, log @ ext) \<and>
       map item_view (individual_templates res) =
         map (\<lambda>i. (Some (PInt i), Some (PInt (25 + i mod 25)))) [1..487] \<and>
       take 487 (product_requests ext) =
         map (\<lambda>i. (Some (PStr ''individual_template''),
                    Some (PStr (get_category_for_template i)))) [1..487] \<and>
       take 487 (price_requests ext) =
         map (\<lambda>i. (Some (PStr ''individual''), (25 + i mod 25) * 100)) [1..487]"
    using run items unfolding base_price_fun by blast
qed

theorem individual_step_provisions_witness:
  "always_succeeds stripe_ok \<and>
   create_individual_template_product stripe_ok 61 [] =
     (Inr [(''product_id'', PStr ''id_0''), (''price_id'', PStr ''id_1''),
           (''template_id'', PInt 61), (''amount'', PInt 36),
           (''stripe_url'', PStr ''https://buy.stripe.com/test_id_1'')],
      [Product_create ''Business Template #061''
         ''AI-powered business template with automated setup and monetization strategies''
         [(''template_id'', PInt 61), (''category'', PStr ''Financial Services''),
          (''type'', PStr ''individual_template'')],
       Price_create ''id_0'' 3600 ''usd'' None
         [(''template_id'', PInt 61), (''pricing_tier'', PStr ''individual'')]]) \<and>
   (\<exists>res ext.
       create_all_stripe_products stripe_ok [] = (Inr res, [] @ ext) \<and>
       map item_view (individual_templates res) =
         map (\<lambda>i. (Some (PInt i), Some (PInt (25 + i mod 25)))) [1..487] \<and>
       take 487 (product_requests ext) =
         map (\<lambda>i. (Some (PStr ''individual_template''),
                    Some (PStr (get_category_for_template i)))) [1..487] \<and>
       take 487 (price_requests ext) =
         map (\<lambda>i. (Some (PStr ''individual''), (25 + i mod 25) * 100)) [1..487])"
proof -
  have ok: "always_succeeds stripe_ok"
    by (rule stripe_ok_always)
  have run: "create_individual_template_product stripe_ok 61 [] =
     (Inr [(''product_id'', PStr ''id_0''), (''price_id'', PStr ''id_1''),
           (''template_id'', PInt 61), (''amount'', PInt 36),
           (''stripe_url'', PStr ''https://buy.stripe.com/test_id_1'')],
      [Product_create ''Business Template #061''
         ''AI-powered business template with automated setup and monetization strategies''
         [(''template_id'', PInt 61), (''category'', PStr ''Financial Services''),
          (''type'', PStr ''individual_template'')],
       Price_create ''id_0'' 3600 ''usd'' None
         [(''template_id'', PInt 61), (''pricing_tier'', PStr ''individual'')]])"
    by code_simp
  note catalog = individual_step_provisions [OF ok, of 61 "[]", THEN conjunct2]
  show ?thesis
    using ok run catalog by (intro conjI)
qed

lemma categories_length: "length categories = 10"
  by (simp add: categories_def)

subsection \<open>The exact catalog of a complete run\<close>

lemma answered_append:
  assumes "answered api log xs is" and "answered api (log @ xs) ys js"
  shows "answered api log (xs @ ys) (is @ js)"
  using assms
proof (induction xs arbitrary: log "is")
  case Nil
  then show ?case by simp
next
  case (Cons c cs)
  then obtain ident rest where ids: "is = ident # rest"
    and a: "api log c = Inr ident"
    and r: "answered api (log @ [c]) cs rest"
    by (auto split: list.splits)
  from Cons.prems(2) have "answered api ((log @ [c]) @ cs) ys js" by simp
  from Cons.IH [OF r this] a show ?case by (simp add: ids)
qed

lemma answered_pair:
  assumes "api log c1 = Inr p" and "api (log @ [c1]) c2 = Inr q"
  shows "answered api log [c1, c2] [p, q]"
  using assms by simp

lemma item_exact:
  assumes "always_succeeds api"
  shows "\<exists>p q.
     create_individual_template_product api i log =
       (Inr (item_record_of i p q), log @ item_requests_of i p) \<and>
     answered api log (item_requests_of i p) [p, q]"
proof -
  from individual_step [OF assms, of i log]
  obtain c1 c2 p q where c1: "c1 = Product_create (''Business Template #'' @ format_03d i)
            ''AI-powered business template with automated setup and monetization strategies''
            [(''template_id'', PInt i),
             (''category'', PStr (get_category_for_template i)),
             (''type'', PStr ''individual_template'')]"
    and c2: "c2 = Price_create p (base_price i * 100) ''usd'' None
            [(''template_id'', PInt i), (''pricing_tier'', PStr ''individual'')]"
    and a1: "api log c1 = Inr p"
    and a2: "api (log @ [c1]) c2 = Inr q"
    and run: "create_individual_template_product api i log =
       (Inr [(''product_id'', PStr p), (''price_id'', PStr q),
             (''template_id'', PInt i), (''amount'', PInt (base_price i)),
             (''stripe_url'', PStr (''https://buy.stripe.com/test_'' @ q))],
        log @ [c1, c2])"
    by (elim exE conjE)
  have reqs: "[c1, c2] = item_requests_of i p"
    unfolding c1 c2 item_requests_of_def base_price_def ..
  have "create_individual_template_product api i log =
       (Inr (item_record_of i p q), log @ item_requests_of i p)"
    unfolding run reqs item_record_of_def base_price_def ..
  moreover have "answered api log (item_requests_of i p) [p, q]"
    using answered_pair [OF a1 a2] unfolding reqs .
  ultimately show ?thesis by (intro exI conjI)
qed

lemma digits_48: "digits 48 = ''48''"
  by code_simp

lemma bundle_exact:
  assumes "always_succeeds api"
  shows "\<exists>p q.
     create_bundle_product api c log =
       (Inr (bundle_record_of c p q), log @ bundle_requests_of c p) \<and>
     answered api log (bundle_requests_of c p) [p, q]"
proof -
  let ?c1 = "Product_create (c @ '' Template Bundle'')
                (''Complete '' @ lower c @ '' business template collection with ''
                   @ digits (nat bundle_size) @ ''+ templates'')
                [(''category'', PStr c), (''template_count'', PInt bundle_size),
                 (''type'', PStr ''bundle'')]"
  obtain p where a1: "api log ?c1 = Inr p"
    and r1: "stripe_request api ?c1 log = (Inr p, log @ [?c1])"
    using stripe_request_answer [OF assms] by blast
  let ?c2 = "Price_create p (bundle_price c * 100) ''usd'' None
                 [(''category'', PStr c), (''pricing_tier'', PStr ''bundle'')]"
  obtain q where a2: "api (log @ [?c1]) ?c2 = Inr q"
    and r2: "stripe_request api ?c2 (log @ [?c1]) = (Inr q, (log @ [?c1]) @ [?c2])"
    using stripe_request_answer [OF assms] by blast
  have run: "create_bundle_product api c log =
       (Inr [(''product_id'', PStr p), (''price_id'', PStr q),
             (''category'', PStr c), (''amount'', PInt (bundle_price c)),
             (''template_count'', PInt bundle_size)],
        (log @ [?c1]) @ [?c2])"
    unfolding create_bundle_product_def
    by (simp only: r1 r2 prod.case sum.case)
  have reqs: "[?c1, ?c2] = bundle_requests_of c p"
    unfolding bundle_requests_of_def
    by (simp add: digits_48 bundle_price_def bundle_size_def)
  have recd: "[(''product_id'', PStr p), (''price_id'', PStr q),
             (''category'', PStr c), (''amount'', PInt (bundle_price c)),
             (''template_count'', PInt bundle_size)] = bundle_record_of c p q"
    unfolding bundle_record_of_def by (simp add: bundle_price_def bundle_size_def)
  have "(log @ [?c1]) @ [?c2] = log @ [?c1, ?c2]"
    by (simp only: append_assoc append_Cons append_Nil)
  then have "create_bundle_product api c log =
       (Inr (bundle_record_of c p q), log @ bundle_requests_of c p)"
    using run by (simp only: reqs recd)
  moreover have "answered api log (bundle_requests_of c p) [p, q]"
    using answered_pair [OF a1 a2] by (simp only: reqs)
  ultimately show ?thesis by (intro exI conjI)
qed

lemma vault_exact:
  assumes "always_succeeds api"
  shows "\<exists>p q.
     create_vault_license_product api log =
       (Inr (vault_record_of p q), log @ vault_requests_of p) \<and>
     answered api log (vault_requests_of p) [p, q]"
proof -
  let ?c1 = "Product_create ''Template Vault License - All 487 Templates''
                ''Complete access to all 487 business templates + lifetime updates + exclusive consulting sessions''
                [(''template_count'', PInt 487), (''type'', PStr ''vault_license''),
                 (''includes'', PStr ''all_templates,lifetime_updates,consulting'')]"
  obtain p where a1: "api log ?c1 = Inr p"
    and r1: "stripe_request api ?c1 log = (Inr p, log @ [?c1])"
    using stripe_request_answer [OF assms] by blast
  let ?c2 = "Price_create p 99700 ''usd'' None
                 [(''pricing_tier'', PStr ''vault''),
                  (''value_proposition'', PStr ''complete_access'')]"
  obtain q where a2: "api (log @ [?c1]) ?c2 = Inr q"
    and r2: "stripe_request api ?c2 (log @ [?c1]) = (Inr q, (log @ [?c1]) @ [?c2])"
    using stripe_request_answer [OF assms] by blast
  have run: "create_vault_license_product api log =
       (Inr (vault_record_of p q), (log @ [?c1]) @ [?c2])"
    unfolding create_vault_license_product_def vault_record_of_def
    by (simp only: r1 r2 prod.case sum.case)
  have reqs: "[?c1, ?c2] = vault_requests_of p"
    unfolding vault_requests_of_def ..
  have "(log @ [?c1]) @ [?c2] = log @ [?c1, ?c2]"
    by (simp only: append_assoc append_Cons append_Nil)
  then have "create_vault_license_product api log =
       (Inr (vault_record_of p q), log @ vault_requests_of p)"
    using run by (simp only: reqs)
  moreover have "answered api log (vault_requests_of p) [p, q]"
    using answered_pair [OF a1 a2] by (simp only: reqs)
  ultimately show ?thesis by (intro exI conjI)
qed

lemma subscription_exact:
  assumes "always_succeeds api"
    and amount: "map_of amounts interval = Some amount"
    and titled: "title interval = titled"
    and every: "(if interval = ''monthly'' then ''month'' else ''year'') = every"
  shows "\<exists>p q.
     create_subscription_product api interval log =
       (Inr (subscription_record_of interval amount p q),
        log @ subscription_requests_of interval titled amount every p) \<and>
     answered api log (subscription_requests_of interval titled amount every p) [p, q]"
proof -
  let ?c1 = "Product_create (''Template Studio '' @ title interval @ '' Subscription'')
                ''10 new AI-generated templates monthly + template customization tools + priority support''
                [(''type'', PStr ''subscription''), (''interval'', PStr interval),
                 (''templates_per_month'', PInt 10)]"
  obtain p where a1: "api log ?c1 = Inr p"
    and r1: "stripe_request api ?c1 log = (Inr p, log @ [?c1])"
    using stripe_request_answer [OF assms(1)] by blast
  let ?c2 = "Price_create p (amount * 100) ''usd''
                 (Some [(''interval'',
                         PStr (if interval = ''monthly'' then ''month'' else ''year''))])
                 [(''pricing_tier'', PStr ''subscription''),
                  (''templates_monthly'', PInt 10)]"
  obtain q where a2: "api (log @ [?c1]) ?c2 = Inr q"
    and r2: "stripe_request api ?c2 (log @ [?c1]) = (Inr q, (log @ [?c1]) @ [?c2])"
    using stripe_request_answer [OF assms(1)] by blast
  have run: "create_subscription_product api interval log =
       (Inr (subscription_record_of interval amount p q), (log @ [?c1]) @ [?c2])"
    unfolding create_subscription_product_def subscription_record_of_def
    by (simp only: amount r1 r2 prod.case sum.case option.case)
  have reqs: "[?c1, ?c2] = subscription_requests_of interval titled amount every p"
    unfolding subscription_requests_of_def titled every ..
  have "(log @ [?c1]) @ [?c2] = log @ [?c1, ?c2]"
    by (simp only: append_assoc append_Cons append_Nil)
  then have "create_subscription_product api interval log =
       (Inr (subscription_record_of interval amount p q),
        log @ subscription_requests_of interval titled amount every p)"
    using run by (simp only: reqs)
  moreover have
    "answered api log (subscription_requests_of interval titled amount every p) [p, q]"
    using answered_pair [OF a1 a2] by (simp only: reqs)
  ultimately show ?thesis by (intro exI conjI)
qed

lemma enterprise_exact:
  assumes "always_succeeds api"
  shows "\<exists>p q1 q2 q3.
     create_enterprise_product api log =
       (Inr (enterprise_record_of p q1 q2 q3), log @ enterprise_requests_of p) \<and>
     answered api log (enterprise_requests_of p) [p, q1, q2, q3]"
proof -
  let ?c0 = "Product_create ''Enterprise Template Development + Consulting''
                ''Custom template creation + white-label licensing + dedicated support + implementation consulting''
                [(''type'', PStr ''enterprise''),
                 (''includes'', PStr ''custom_templates,white_label,consulting,implementation'')]"
  obtain p where a0: "api log ?c0 = Inr p"
    and r0: "stripe_request api ?c0 log = (Inr p, log @ [?c0])"
    using stripe_request_answer [OF assms] by blast
  let ?c1 = "Price_create p (1997 * 100) ''usd'' None
                [(''pricing_tier'', PStr (''enterprise_'' @ ''starter'')),
                 (''includes_consulting'', PBool True)]"
  let ?l1 = "log @ [?c0]"
  obtain q1 where a1: "api ?l1 ?c1 = Inr q1"
    and r1: "stripe_request api ?c1 ?l1 = (Inr q1, ?l1 @ [?c1])"
    using stripe_request_answer [OF assms] by blast
  let ?c2 = "Price_create p (2997 * 100) ''usd'' None
                [(''pricing_tier'', PStr (''enterprise_'' @ ''growth'')),
                 (''includes_consulting'', PBool True)]"
  let ?l2 = "?l1 @ [?c1]"
  obtain q2 where a2: "api ?l2 ?c2 = Inr q2"
    and r2: "stripe_request api ?c2 ?l2 = (Inr q2, ?l2 @ [?c2])"
    using stripe_request_answer [OF assms] by blast
  let ?c3 = "Price_create p (4997 * 100) ''usd'' None
                [(''pricing_tier'', PStr (''enterprise_'' @ ''enterprise'')),
                 (''includes_consulting'', PBool True)]"
  let ?l3 = "?l2 @ [?c2]"
  obtain q3 where a3: "api ?l3 ?c3 = Inr q3"
    and r3: "stripe_request api ?c3 ?l3 = (Inr q3, ?l3 @ [?c3])"
    using stripe_request_answer [OF assms] by blast
  have prices: "enterprise_prices api p enterprise_tiers [] ?l1 =
      (Inr ((([] @ [PDict [(''tier'', PStr ''starter''), (''price_id'', PStr q1),
                           (''amount'', PInt 1997)]])
              @ [PDict [(''tier'', PStr ''growth''), (''price_id'', PStr q2),
                        (''amount'', PInt 2997)]])
              @ [PDict [(''tier'', PStr ''enterprise''), (''price_id'', PStr q3),
                        (''amount'', PInt 4997)]]),
       ?l3 @ [?c3])"
    unfolding enterprise_tiers_def enterprise_prices.simps
    by (simp only: r1 r2 r3 prod.case sum.case)
  have run: "create_enterprise_product api log =
      (Inr [(''product_id'', PStr p),
            (''pricing_tiers'', PList
               ((([] @ [PDict [(''tier'', PStr ''starter''), (''price_id'', PStr q1),
                           (''amount'', PInt 1997)]])
              @ [PDict [(''tier'', PStr ''growth''), (''price_id'', PStr q2),
                        (''amount'', PInt 2997)]])
              @ [PDict [(''tier'', PStr ''enterprise''), (''price_id'', PStr q3),
                        (''amount'', PInt 4997)]])),
            (''type'', PStr ''enterprise'')],
       ?l3 @ [?c3])"
    unfolding create_enterprise_product_def
    by (simp only: r0 prices prod.case sum.case)
  have reqs: "[?c0, ?c1, ?c2, ?c3] = enterprise_requests_of p"
    unfolding enterprise_requests_of_def by simp
  have "create_enterprise_product api log =
       (Inr (enterprise_record_of p q1 q2 q3), log @ [?c0, ?c1, ?c2, ?c3])"
    unfolding run enterprise_record_of_def
    by (simp only: append_assoc append_Cons append_Nil)
  then have "create_enterprise_product api log =
       (Inr (enterprise_record_of p q1 q2 q3), log @ enterprise_requests_of p)"
    by (simp only: reqs)
  moreover have "answered api log [?c0, ?c1, ?c2, ?c3] [p, q1, q2, q3]"
    using a0 a1 a2 a3 by simp
  then have "answered api log (enterprise_requests_of p) [p, q1, q2, q3]"
    by (simp only: reqs)
  ultimately show ?thesis by (intro exI conjI)
qed

lemma individual_loop_exact:
  assumes "always_succeeds api"
  shows "\<exists>pq. length pq = length ids \<and>
     individual_loop api ids acc log =
       (Inr (acc @ map (\<lambda>(i, p, q). item_record_of i p q) (zip ids pq)),
        log @ concat (map (\<lambda>(i, p, q). item_requests_of i p) (zip ids pq))) \<and>
     answered api log (concat (map (\<lambda>(i, p, q). item_requests_of i p) (zip ids pq)))
       (concat (map (\<lambda>(p, q). [p, q]) pq))"
proof (induction ids arbitrary: acc log)
  case Nil
  show ?case by simp
next
  case (Cons i rest)
  from item_exact [OF assms, of i log]
  obtain p q where step: "create_individual_template_product api i log =
       (Inr (item_record_of i p q), log @ item_requests_of i p)"
    and ans: "answered api log (item_requests_of i p) [p, q]"
    by (elim exE conjE)
  from Cons.IH [of "acc @ [item_record_of i p q]" "log @ item_requests_of i p"]
  obtain pq where len: "length pq = length rest"
    and run: "individual_loop api rest (acc @ [item_record_of i p q])
                (log @ item_requests_of i p) =
       (Inr ((acc @ [item_record_of i p q])
               @ map (\<lambda>(i, p, q). item_record_of i p q) (zip rest pq)),
        (log @ item_requests_of i p)
          @ concat (map (\<lambda>(i, p, q). item_requests_of i p) (zip rest pq)))"
    and ans': "answered api (log @ item_requests_of i p)
       (concat (map (\<lambda>(i, p, q). item_requests_of i p) (zip rest pq)))
       (concat (map (\<lambda>(p, q). [p, q]) pq))"
    by (elim exE conjE)
  have "length ((p, q) # pq) = length (i # rest)"
    using len by simp
  moreover have "individual_loop api (i # rest) acc log =
       (Inr (acc @ map (\<lambda>(i, p, q). item_record_of i p q) (zip (i # rest) ((p, q) # pq))),
        log @ concat (map (\<lambda>(i, p, q). item_requests_of i p) (zip (i # rest) ((p, q) # pq))))"
    by (simp add: step run)
  moreover have "answered api log
       (concat (map (\<lambda>(i, p, q). item_requests_of i p) (zip (i # rest) ((p, q) # pq))))
       (concat (map (\<lambda>(p, q). [p, q]) ((p, q) # pq)))"
    using answered_append [OF ans ans'] by simp
  ultimately show ?case by (intro exI conjI)
qed

lemma bundle_loop_exact:
  assumes "always_succeeds api"
  shows "\<exists>pq. length pq = length cats \<and>
     bundle_loop api cats acc log =
       (Inr (acc @ map (\<lambda>(c, p, q). bundle_record_of c p q) (zip cats pq)),
        log @ concat (map (\<lambda>(c, p, q). bundle_requests_of c p) (zip cats pq))) \<and>
     answered api log (concat (map (\<lambda>(c, p, q). bundle_requests_of c p) (zip cats pq)))
       (concat (map (\<lambda>(p, q). [p, q]) pq))"
proof (induction cats arbitrary: acc log)
  case Nil
  show ?case by simp
next
  case (Cons c rest)
  from bundle_exact [OF assms, of c log]
  obtain p q where step: "create_bundle_product api c log =
       (Inr (bundle_record_of c p q), log @ bundle_requests_of c p)"
    and ans: "answered api log (bundle_requests_of c p) [p, q]"
    by (elim exE conjE)
  from Cons.IH [of "acc @ [bundle_record_of c p q]" "log @ bundle_requests_of c p"]
  obtain pq where len: "length pq = length rest"
    and run: "bundle_loop api rest (acc @ [bundle_record_of c p q])
                (log @ bundle_requests_of c p) =
       (Inr ((acc @ [bundle_record_of c p q])
               @ map (\<lambda>(c, p, q). bundle_record_of c p q) (zip rest pq)),
        (log @ bundle_requests_of c p)
          @ concat (map (\<lambda>(c, p, q). bundle_requests_of c p) (zip rest pq)))"
    and ans': "answered api (log @ bundle_requests_of c p)
       (concat (map (\<lambda>(c, p, q). bundle_requests_of c p) (zip rest pq)))
       (concat (map (\<lambda>(p, q). [p, q]) pq))"
    by (elim exE conjE)
  have "length ((p, q) # pq) = length (c # rest)"
    using len by simp
  moreover have "bundle_loop api (c # rest) acc log =
       (Inr (acc @ map (\<lambda>(c, p, q). bundle_record_of c p q) (zip (c # rest) ((p, q) # pq))),
        log @ concat (map (\<lambda>(c, p, q). bundle_requests_of c p) (zip (c # rest) ((p, q) # pq))))"
    by (simp add: step run)
  moreover have "answered api log
       (concat (map (\<lambda>(c, p, q). bundle_requests_of c p) (zip (c # rest) ((p, q) # pq))))
       (concat (map (\<lambda>(p, q). [p, q]) ((p, q) # pq)))"
    using answered_append [OF ans ans'] by simp
  ultimately show ?case by (intro exI conjI)
qed

lemma title_monthly: "title ''monthly'' = ''Monthly''"
  by code_simp

lemma title_annual: "title ''annual'' = ''Annual''"
  by code_simp

lemma create_all_exact:
  assumes "always_succeeds api"
  shows "\<exists>item_ids bundle_ids vp vq mp mq ap aq ep e1 e2 e3.
     length item_ids = 487 \<and> length bundle_ids = 10 \<and>
     create_all_stripe_products api log =
       (Inr \<lparr>individual_templates =
               map (\<lambda>(i, p, q). item_record_of i p q) (zip [1..487] item_ids),
             bundles =
               map (\<lambda>(c, p, q). bundle_record_of c p q) (zip categories bundle_ids),
             subscriptions =
               [subscription_record_of ''monthly'' 47 mp mq,
                subscription_record_of ''annual'' 470 ap aq],
             enterprise = [enterprise_record_of ep e1 e2 e3],
             vault_license = Some (vault_record_of vp vq)\<rparr>,
        log @ (concat (map (\<lambda>(i, p, q). item_requests_of i p) (zip [1..487] item_ids))
          @ concat (map (\<lambda>(c, p, q). bundle_requests_of c p) (zip categories bundle_ids))
          @ vault_requests_of vp
          @ subscription_requests_of ''monthly'' ''Monthly'' 47 ''month'' mp
          @ subscription_requests_of ''annual'' ''Annual'' 470 ''year'' ap
          @ enterprise_requests_of ep)) \<and>
     answered api log
       (concat (map (\<lambda>(i, p, q). item_requests_of i p) (zip [1..487] item_ids))
          @ concat (map (\<lambda>(c, p, q). bundle_requests_of c p) (zip categories bundle_ids))
          @ vault_requests_of vp
          @ subscription_requests_of ''monthly'' ''Monthly'' 47 ''month'' mp
          @ subscription_requests_of ''annual'' ''Annual'' 470 ''year'' ap
          @ enterprise_requests_of ep)
       (concat (map (\<lambda>(p, q). [p, q]) item_ids)
          @ concat (map (\<lambda>(p, q). [p, q]) bundle_ids)
          @ [vp, vq] @ [mp, mq] @ [ap, aq] @ [ep, e1, e2, e3])"
proof -
  from individual_loop_exact [OF assms, of "[1..487]" "[]" log]
  obtain item_ids where n1: "length item_ids = length [1..487]"
    and s1: "individual_loop api [1..487] [] log =
       (Inr ([] @ map (\<lambda>(i, p, q). item_record_of i p q) (zip [1..487] item_ids)),
        log @ concat (map (\<lambda>(i, p, q). item_requests_of i p) (zip [1..487] item_ids)))"
    and a1: "answered api log
       (concat (map (\<lambda>(i, p, q). item_requests_of i p) (zip [1..487] item_ids)))
       (concat (map (\<lambda>(p, q). [p, q]) item_ids))"
    by (elim exE conjE)
  let ?items = "map (\<lambda>(i, p, q). item_record_of i p q) (zip [1..487] item_ids)"
  let ?x1 = "concat (map (\<lambda>(i, p, q). item_requests_of i p) (zip [1..487] item_ids))"
  let ?l1 = "log @ ?x1"
  from bundle_loop_exact [OF assms, of categories "[]" ?l1]
  obtain bundle_ids where n2: "length bundle_ids = length categories"
    and s2: "bundle_loop api categories [] ?l1 =
       (Inr ([] @ map (\<lambda>(c, p, q). bundle_record_of c p q) (zip categories bundle_ids)),
        ?l1 @ concat (map (\<lambda>(c, p, q). bundle_requests_of c p) (zip categories bundle_ids)))"
    and a2: "answered api ?l1
       (concat (map (\<lambda>(c, p, q). bundle_requests_of c p) (zip categories bundle_ids)))
       (concat (map (\<lambda>(p, q). [p, q]) bundle_ids))"
    by (elim exE conjE)
  let ?bundles = "map (\<lambda>(c, p, q). bundle_record_of c p q) (zip categories bundle_ids)"
  let ?x2 = "concat (map (\<lambda>(c, p, q). bundle_requests_of c p) (zip categories bundle_ids))"
  let ?l2 = "?l1 @ ?x2"
  from vault_exact [OF assms, of ?l2]
  obtain vp vq where s3: "create_vault_license_product api ?l2 =
       (Inr (vault_record_of vp vq), ?l2 @ vault_requests_of vp)"
    and a3: "answered api ?l2 (vault_requests_of vp) [vp, vq]"
    by (elim exE conjE)
  let ?x3 = "vault_requests_of vp"
  let ?l3 = "?l2 @ ?x3"
  have monthly: "map_of amounts ''monthly'' = Some 47"
    and annual: "map_of amounts ''annual'' = Some 470"
    by (simp_all add: amounts_def)
  have every_m: "(if ''monthly'' = ''monthly'' then ''month'' else ''year'') = ''month''"
    by simp
  have every_a: "(if ''annual'' = ''monthly'' then ''month'' else ''year'') = ''year''"
    by simp
  from subscription_exact [OF assms monthly title_monthly every_m, of ?l3]
  obtain mp mq where s4: "create_subscription_product api ''monthly'' ?l3 =
       (Inr (subscription_record_of ''monthly'' 47 mp mq),
        ?l3 @ subscription_requests_of ''monthly'' ''Monthly'' 47 ''month'' mp)"
    and a4: "answered api ?l3
        (subscription_requests_of ''monthly'' ''Monthly'' 47 ''month'' mp) [mp, mq]"
    by (elim exE conjE)
  let ?x4 = "subscription_requests_of ''monthly'' ''Monthly'' 47 ''month'' mp"
  let ?l4 = "?l3 @ ?x4"
  from subscription_exact [OF assms annual title_annual every_a, of ?l4]
  obtain ap aq where s5: "create_subscription_product api ''annual'' ?l4 =
       (Inr (subscription_record_of ''annual'' 470 ap aq),
        ?l4 @ subscription_requests_of ''annual'' ''Annual'' 470 ''year'' ap)"
    and a5: "answered api ?l4
        (subscription_requests_of ''annual'' ''Annual'' 470 ''year'' ap) [ap, aq]"
    by (elim exE conjE)
  let ?x5 = "subscription_requests_of ''annual'' ''Annual'' 470 ''year'' ap"
  let ?l5 = "?l4 @ ?x5"
  from enterprise_exact [OF assms, of ?l5]
  obtain ep e1 e2 e3 where s6: "create_enterprise_product api ?l5 =
       (Inr (enterprise_record_of ep e1 e2 e3), ?l5 @ enterprise_requests_of ep)"
    and a6: "answered api ?l5 (enterprise_requests_of ep) [ep, e1, e2, e3]"
    by (elim exE conjE)
  let ?x6 = "enterprise_requests_of ep"
  have "create_all_stripe_products api log =
       (Inr \<lparr>individual_templates = [] @ ?items, bundles = [] @ ?bundles,
             subscriptions =
               [subscription_record_of ''monthly'' 47 mp mq,
                subscription_record_of ''annual'' 470 ap aq],
             enterprise = [] @ [enterprise_record_of ep e1 e2 e3],
             vault_license = Some (vault_record_of vp vq)\<rparr>,
        ?l5 @ ?x6)"
    unfolding create_all_stripe_products_def
    by (simp only: s1 s2 s3 s4 s5 s6 prod.case sum.case)
  then have run: "create_all_stripe_products api log =
       (Inr \<lparr>individual_templates = ?items, bundles = ?bundles,
             subscriptions =
               [subscription_record_of ''monthly'' 47 mp mq,
                subscription_record_of ''annual'' 470 ap aq],
             enterprise = [enterprise_record_of ep e1 e2 e3],
             vault_license = Some (vault_record_of vp vq)\<rparr>,
        log @ (?x1 @ ?x2 @ ?x3 @ ?x4 @ ?x5 @ ?x6))"
    by (simp only: append_Nil append_assoc)
  have b5: "answered api ?l4 (?x5 @ ?x6) ([ap, aq] @ [ep, e1, e2, e3])"
    by (rule answered_append [OF a5 a6])
  have b4: "answered api ?l3 (?x4 @ ?x5 @ ?x6) ([mp, mq] @ [ap, aq] @ [ep, e1, e2, e3])"
    by (rule answered_append [OF a4 b5])
  have b3: "answered api ?l2 (?x3 @ ?x4 @ ?x5 @ ?x6)
              ([vp, vq] @ [mp, mq] @ [ap, aq] @ [ep, e1, e2, e3])"
    by (rule answered_append [OF a3 b4])
  have b2: "answered api ?l1 (?x2 @ ?x3 @ ?x4 @ ?x5 @ ?x6)
              (concat (map (\<lambda>(p, q). [p, q]) bundle_ids)
                 @ [vp, vq] @ [mp, mq] @ [ap, aq] @ [ep, e1, e2, e3])"
    by (rule answered_append [OF a2 b3])
  have b1: "answered api log (?x1 @ ?x2 @ ?x3 @ ?x4 @ ?x5 @ ?x6)
              (concat (map (\<lambda>(p, q). [p, q]) item_ids)
                 @ concat (map (\<lambda>(p, q). [p, q]) bundle_ids)
                 @ [vp, vq] @ [mp, mq] @ [ap, aq] @ [ep, e1, e2, e3])"
    by (rule answered_append [OF a1 b2])
  have m1: "length item_ids = 487"
    using n1 by (simp only: inventory_length)
  have m2: "length bundle_ids = 10"
    using n2 by (simp only: categories_length)
  from m1 m2 run b1 show ?thesis by (intro exI conjI)
qed

lemma item_records_ids:
  assumes "length ids = length pq"
  shows "map (\<lambda>r. map_of r ''template_id'') (map (\<lambda>(i, p, q). item_record_of i p q) (zip ids pq))
           = map (\<lambda>i. Some (PInt i)) ids"
  using assms by (induction ids pq rule: list_induct2) (auto simp: item_record_of_def split: prod.splits)

lemma bundle_records_categories:
  assumes "length cats = length pq"
  shows "map (\<lambda>r. map_of r ''category'') (map (\<lambda>(c, p, q). bundle_record_of c p q) (zip cats pq))
           = map (\<lambda>c. Some (PStr c)) cats"
  using assms by (induction cats pq rule: list_induct2) (auto simp: bundle_record_of_def split: prod.splits)

text \<open>
  C3. Against a service that answers every request, catalog generation returns a result
  (it does not raise) that holds exactly one provisioned record per declared entry, in
  declaration order. The run issues, in order, the two requests of each template id from 1
  to 487, the two requests of each declared category, those of the vault license, of the
  monthly and of the annual subscription, and the four of the enterprise product, and
  nothing else. The item records are the records of the ids 1 to 487 in that order, the
  bundle records those of the declared categories in declared order, the vault license is
  the vault record, the subscriptions are the monthly then the annual record, and the
  enterprise list holds the one enterprise record; each record carries the ids the service
  answered to the requests of its own entry. That is 487 + 14 records, none dropped,
  repeated or moved.
\<close>

theorem catalog_complete_in_order:
  assumes "always_succeeds api"
  shows "\<exists>res ext item_ids bundle_ids vp vq mp mq ap aq ep e1 e2 e3.
     create_all_stripe_products api log = (Inr res, log @ ext) \<and>
     length item_ids = 487 \<and> length bundle_ids = 10 \<and>
     individual_templates res =
       map (\<lambda>(i, p, q). item_record_of i p q) (zip [1..487] item_ids) \<and>
     bundles res =
       map (\<lambda>(c, p, q). bundle_record_of c p q) (zip categories bundle_ids) \<and>
     vault_license res = Some (vault_record_of vp vq) \<and>
     subscriptions res =
       [subscription_record_of ''monthly'' 47 mp mq,
        subscription_record_of ''annual'' 470 ap aq] \<and>
     enterprise res = [enterprise_record_of ep e1 e2 e3] \<and>
     ext =
       concat (map (\<lambda>(i, p, q). item_requests_of i p) (zip [1..487] item_ids))
       @ concat (map (\<lambda>(c, p, q). bundle_requests_of c p) (zip categories bundle_ids))
       @ vault_requests_of vp
       @ subscription_requests_of ''monthly'' ''Monthly'' 47 ''month'' mp
       @ subscription_requests_of ''annual'' ''Annual'' 470 ''year'' ap
       @ enterprise_requests_of ep \<and>
     answered api log ext
       (concat (map (\<lambda>(p, q). [p, q]) item_ids)
        @ concat (map (\<lambda>(p, q). [p, q]) bundle_ids)
        @ [vp, vq] @ [mp, mq] @ [ap, aq] @ [ep, e1, e2, e3]) \<and>
     map (\<lambda>r. map_of r ''template_id'') (individual_templates res) =
       map (\<lambda>i. Some (PInt i)) [1..487] \<and>
     length (individual_templates res) = 487 \<and>
     map (\<lambda>r. map_of r ''category'') (bundles res) = map (\<lambda>c. Some (PStr c)) categories \<and>
     length (bundles res) = 10 \<and>
     map (\<lambda>r. map_of r ''interval'') (subscriptions res) =
       [Some (PStr ''monthly''), Some (PStr ''annual'')] \<and>
     map_of (enterprise_record_of ep e1 e2 e3) ''type'' = Some (PStr ''enterprise'') \<and>
     length (individual_templates res) + length (bundles res) + 1
       + length (subscriptions res) + length (enterprise res) = 487 + 14"
proof -
  from create_all_exact [OF assms, of log]
  obtain item_ids bundle_ids vp vq mp mq ap aq ep e1 e2 e3 where
    n1: "length item_ids = 487" and n2: "length bundle_ids = 10"
    and run: "create_all_stripe_products api log =
       (Inr \<lparr>individual_templates =
               map (\<lambda>(i, p, q). item_record_of i p q) (zip [1..487] item_ids),
             bundles =
               map (\<lambda>(c, p, q). bundle_record_of c p q) (zip categories bundle_ids),
             subscriptions =
               [subscription_record_of ''monthly'' 47 mp mq,
                subscription_record_of ''annual'' 470 ap aq],
             enterprise = [enterprise_record_of ep e1 e2 e3],
             vault_license = Some (vault_record_of vp vq)\<rparr>,
        log @ (concat (map (\<lambda>(i, p, q). item_requests_of i p) (zip [1..487] item_ids))
          @ concat (map (\<lambda>(c, p, q). bundle_requests_of c p) (zip categories bundle_ids))
          @ vault_requests_of vp
          @ subscription_requests_of ''monthly'' ''Monthly'' 47 ''month'' mp
          @ subscription_requests_of ''annual'' ''Annual'' 470 ''year'' ap
          @ enterprise_requests_of ep))"
    and ans: "answered api log
       (concat (map (\<lambda>(i, p, q). item_requests_of i p) (zip [1..487] item_ids))
          @ concat (map (\<lambda>(c, p, q). bundle_requests_of c p) (zip categories bundle_ids))
          @ vault_requests_of vp
          @ subscription_requests_of ''monthly'' ''Monthly'' 47 ''month'' mp
          @ subscription_requests_of ''annual'' ''Annual'' 470 ''year'' ap
          @ enterprise_requests_of ep)
       (concat (map (\<lambda>(p, q). [p, q]) item_ids)
          @ concat (map (\<lambda>(p, q). [p, q]) bundle_ids)
          @ [vp, vq] @ [mp, mq] @ [ap, aq] @ [ep, e1, e2, e3])"
    by (elim exE conjE)
  let ?items = "map (\<lambda>(i, p, q). item_record_of i p q) (zip [1..487] item_ids)"
  let ?bundles = "map (\<lambda>(c, p, q). bundle_record_of c p q) (zip categories bundle_ids)"
  let ?subs = "[subscription_record_of ''monthly'' 47 mp mq,
                subscription_record_of ''annual'' 470 ap aq]"
  let ?res = "\<lparr>individual_templates = ?items, bundles = ?bundles, subscriptions = ?subs,
               enterprise = [enterprise_record_of ep e1 e2 e3],
               vault_license = Some (vault_record_of vp vq)\<rparr>"
  let ?ext = "concat (map (\<lambda>(i, p, q). item_requests_of i p) (zip [1..487] item_ids))
          @ concat (map (\<lambda>(c, p, q). bundle_requests_of c p) (zip categories bundle_ids))
          @ vault_requests_of vp
          @ subscription_requests_of ''monthly'' ''Monthly'' 47 ''month'' mp
          @ subscription_requests_of ''annual'' ''Annual'' 470 ''year'' ap
          @ enterprise_requests_of ep"
  have l1: "length [1..487] = length item_ids"
    by (simp only: inventory_length n1)
  have l2: "length categories = length bundle_ids"
    by (simp only: categories_length n2)
  have f1: "individual_templates ?res = ?items" by simp
  have f2: "bundles ?res = ?bundles" by simp
  have f3: "vault_license ?res = Some (vault_record_of vp vq)" by simp
  have f4: "subscriptions ?res = ?subs" by simp
  have f5: "enterprise ?res = [enterprise_record_of ep e1 e2 e3]" by simp
  have f6: "?ext = ?ext" ..
  have g1: "map (\<lambda>r. map_of r ''template_id'') (individual_templates ?res) =
       map (\<lambda>i. Some (PInt i)) [1..487]"
    unfolding f1 by (rule item_records_ids [OF l1])
  have g2: "length (individual_templates ?res) = 487"
    unfolding f1 using l1 n1 by (simp only: length_map length_zip min.idem)
  have g3: "map (\<lambda>r. map_of r ''category'') (bundles ?res) =
       map (\<lambda>c. Some (PStr c)) categories"
    unfolding f2 by (rule bundle_records_categories [OF l2])
  have g4: "length (bundles ?res) = 10"
    unfolding f2 using l2 n2 by (simp only: length_map length_zip min.idem)
  have g5: "map (\<lambda>r. map_of r ''interval'') (subscriptions ?res) =
       [Some (PStr ''monthly''), Some (PStr ''annual'')]"
    unfolding f4 by (simp add: subscription_record_of_def)
  have g6: "map_of (enterprise_record_of ep e1 e2 e3) ''type'' = Some (PStr ''enterprise'')"
    by (simp add: enterprise_record_of_def)
  have g7: "length (individual_templates ?res) + length (bundles ?res) + 1
       + length (subscriptions ?res) + length (enterprise ?res) = 487 + 14"
    unfolding g2 g4 f4 f5 by simp
  from run n1 n2 f1 f2 f3 f4 f5 f6 ans g1 g2 g3 g4 g5 g6 g7
  show ?thesis by (intro exI conjI)
qed

theorem catalog_complete_in_order_witness:
  "always_succeeds stripe_ok \<and>
   (\<exists>res ext item_ids bundle_ids vp vq mp mq ap aq ep e1 e2 e3.
     create_all_stripe_products stripe_ok [] = (Inr res, [] @ ext) \<and>
     length item_ids = 487 \<and> length bundle_ids = 10 \<and>
     individual_templates res =
       map (\<lambda>(i, p, q). item_record_of i p q) (zip [1..487] item_ids) \<and>
     bundles res =
       map (\<lambda>(c, p, q). bundle_record_of c p q) (zip categories bundle_ids) \<and>
     vault_license res = Some (vault_record_of vp vq) \<and>
     subscriptions res =
       [subscription_record_of ''monthly'' 47 mp mq,
        subscription_record_of ''annual'' 470 ap aq] \<and>
     enterprise res = [enterprise_record_of ep e1 e2 e3] \<and>
     ext =
       concat (map (\<lambda>(i, p, q). item_requests_of i p) (zip [1..487] item_ids))
       @ concat (map (\<lambda>(c, p, q). bundle_requests_of c p) (zip categories bundle_ids))
       @ vault_requests_of vp
       @ subscription_requests_of ''monthly'' ''Monthly'' 47 ''month'' mp
       @ subscription_requests_of ''annual'' ''Annual'' 470 ''year'' ap
       @ enterprise_requests_of ep \<and>
     answered stripe_ok [] ext
       (concat (map (\<lambda>(p, q). [p, q]) item_ids)
        @ concat (map (\<lambda>(p, q). [p, q]) bundle_ids)
        @ [vp, vq] @ [mp, mq] @ [ap, aq] @ [ep, e1, e2, e3]) \<and>
     map (\<lambda>r. map_of r ''template_id'') (individual_templates res) =
       map (\<lambda>i. Some (PInt i)) [1..487] \<and>
     length (individual_templates res) = 487 \<and>
     map (\<lambda>r. map_of r ''category'') (bundles res) = map (\<lambda>c. Some (PStr c)) categories \<and>
     length (bundles res) = 10 \<and>
     map (\<lambda>r. map_of r ''interval'') (subscriptions res) =
       [Some (PStr ''monthly''), Some (PStr ''annual'')] \<and>
     map_of (enterprise_record_of ep e1 e2 e3) ''type'' = Some (PStr ''enterprise'') \<and>
     length (individual_templates res) + length (bundles res) + 1
       + length (subscriptions res) + length (enterprise res) = 487 + 14)"
proof -
  have ok: "always_succeeds stripe_ok"
    by (rule stripe_ok_always)
  show ?thesis
    using ok catalog_complete_in_order [OF ok, of "[]"] by (rule conjI)
qed

text \<open>
  C6. Against a service that answers every request, the bundle step for any category
  issues one product request and one price request of \<open>(199 + 10 * len(category)) * 100\<close>
  cents, and returns a record with the amount \<open>199 + 10 * len(category)\<close>. Catalog
  generation issues, after the 487 product requests of the items, exactly fourteen product
  requests: one per declared category, in order, then one for the vault license, one per
  subscription interval and one for the enterprise product; so 487 + 14 in all and not a
  further one per item. Each of them is followed by its one price request, the enterprise
  product by the three price requests of its three price points.
\<close>

theorem bundle_step_and_tier_requests:
  assumes "always_succeeds api"
  shows "(\<exists>product_id price_id nm ds.
       create_bundle_product api category log =
         (Inr [(''product_id'', PStr product_id), (''price_id'', PStr price_id),
               (''category'', PStr category),
               (''amount'', PInt (199 + 10 * int (length category))),
               (''template_count'', PInt 48)],
          log @ [Product_create nm ds
                   [(''category'', PStr category), (''template_count'', PInt 48),
                    (''type'', PStr ''bundle'')],
                 Price_create product_id ((199 + 10 * int (length category)) * 100) ''usd'' None
                   [(''category'', PStr category), (''pricing_tier'', PStr ''bundle'')]])) \<and>
     (\<exists>res ext.
       create_all_stripe_products api log = (Inr res, log @ ext) \<and>
       map bundle_view (bundles res) =
         map (\<lambda>c. (Some (PStr c), Some (PInt (199 + 10 * int (length c))))) categories \<and>
       length (product_requests ext) = 487 + 14 \<and>
       drop 487 (product_requests ext) =
         map (\<lambda>c. (Some (PStr ''bundle''), Some (PStr c))) categories
         @ [(Some (PStr ''vault_license''), None),
            (Some (PStr ''subscription''), None),
            (Some (PStr ''subscription''), None),
            (Some (PStr ''enterprise''), None)] \<and>
       drop 487 (price_requests ext) =
         map (\<lambda>c. (Some (PStr ''bundle''), (199 + 10 * int (length c)) * 100)) categories
         @ [(Some (PStr ''vault''), 99700),
            (Some (PStr ''subscription''), 4700),
            (Some (PStr ''subscription''), 47000),
            (Some (PStr ''enterprise_starter''), 199700),
            (Some (PStr ''enterprise_growth''), 299700),
            (Some (PStr ''enterprise_enterprise''), 499700)])"
proof (rule conjI)
  show "\<exists>product_id price_id nm ds.
       create_bundle_product api category log =
         (Inr [(''product_id'', PStr product_id), (''price_id'', PStr price_id),
               (''category'', PStr category),
               (''amount'', PInt (199 + 10 * int (length category))),
               (''template_count'', PInt 48)],
          log @ [Product_create nm ds
                   [(''category'', PStr category), (''template_count'', PInt 48),
                    (''type'', PStr ''bundle'')],
                 Price_create product_id ((199 + 10 * int (length category)) * 100) ''usd'' None
                   [(''category'', PStr category), (''pricing_tier'', PStr ''bundle'')]])"
    using bundle_ok [OF assms, of category log]
    unfolding bundle_price_fun bundle_size_def .
next
  from create_all_ok [OF assms, of log]
  obtain res ext where run: "create_all_stripe_products api log = (Inr res, log @ ext)"
    and bs: "map bundle_view (bundles res) =
       map (\<lambda>c. (Some (PStr c), Some (PInt (bundle_price c)))) categories"
    and pr: "product_requests ext =
       map (\<lambda>i. (Some (PStr ''individual_template''),
                  Some (PStr (get_category_for_template i)))) [1..487]
       @ map (\<lambda>c. (Some (PStr ''bundle''), Some (PStr c))) categories
       @ [(Some (PStr ''vault_license''), None),
          (Some (PStr ''subscription''), None),
          (Some (PStr ''subscription''), None),
          (Some (PStr ''enterprise''), None)]"
    and pc: "price_requests ext =
       map (\<lambda>i. (Some (PStr ''individual''), base_price i * 100)) [1..487]
       @ map (\<lambda>c. (Some (PStr ''bundle''), bundle_price c * 100)) categories
       @ [(Some (PStr ''vault''), 99700),
          (Some (PStr ''subscription''), 4700),
          (Some (PStr ''subscription''), 47000),
          (Some (PStr ''enterprise_starter''), 199700),
          (Some (PStr ''enterprise_growth''), 299700),
          (Some (PStr ''enterprise_enterprise''), 499700)]"
    by (elim exE conjE)
  have n: "length (product_requests ext) = 487 + 14"
    unfolding pr by (simp only: length_append length_map inventory_length categories_length) simp
  have d1: "drop 487 (product_requests ext) =
         map (\<lambda>c. (Some (PStr ''bundle''), Some (PStr c))) categories
         @ [(Some (PStr ''vault_license''), None),
            (Some (PStr ''subscription''), None),
            (Some (PStr ''subscription''), None),
            (Some (PStr ''enterprise''), None)]"
    unfolding pr by (simp only: drop_append length_map inventory_length) simp
  have d2: "drop 487 (price_requests ext) =
         map (\<lambda>c. (Some (PStr ''bundle''), bundle_price c * 100)) categories
         @ [(Some (PStr ''vault''), 99700),
            (Some (PStr ''subscription''), 4700),
            (Some (PStr ''subscription''), 47000),
            (Some (PStr ''enterprise_starter''), 199700),
            (Some (PStr ''enterprise_growth''), 299700),
            (Some (PStr ''enterprise_enterprise''), 499700)]"
    unfolding pc by (simp only: drop_append length_map inventory_length) simp
  show "\<exists>res ext.
       create_all_stripe_products api log = (Inr res, log @ ext) \<and>
       map bundle_view (bundles res) =
         map (\<lambda>c. (Some (PStr c), Some (PInt (199 + 10 * int (length c))))) categories \<and>
       length (product_requests ext) = 487 + 14 \<and>
       drop 487 (product_requests ext) =
         map (\<lambda>c. (Some (PStr ''bundle''), Some (PStr c))) categories
         @ [(Some (PStr ''vault_license''), None),
            (Some (PStr ''subscription''), None),
            (Some (PStr ''subscription''), None),
            (Some (PStr ''enterprise''), None)] \<and>
       drop 487 (price_requests ext) =
         map (\<lambda>c. (Some (PStr ''bundle''), (199 + 10 * int (length c)) * 100)) categories
         @ [(Some (PStr ''vault''), 99700),
            (Some (PStr ''subscription''), 4700),
            (Some (PStr ''subscription''), 47000),
            (Some (PStr ''enterprise_starter''), 199700),
            (Some (PStr ''enterprise_growth''), 299700),
            (Some (PStr ''enterprise_enterprise''), 499700)]"
    using run bs n d1 d2 unfolding bundle_price_fun by (intro exI conjI)
qed

theorem bundle_step_and_tier_requests_witness:
  "always_succeeds stripe_ok \<and>
   create_bundle_product stripe_ok ''Financial Services'' [] =
     (Inr [(''product_id'', PStr ''id_0''), (''price_id'', PStr ''id_1''),
           (''category'', PStr ''Financial Services''), (''amount'', PInt 379),
           (''template_count'', PInt 48)],
      [Product_create ''Financial Services Template Bundle''
         ''Complete financial services business template collection with 48+ templates''
         [(''category'', PStr ''Financial Services''), (''template_count'', PInt 48),
          (''type'', PStr ''bundle'')],
       Price_create ''id_0'' 37900 ''usd'' None
         [(''category'', PStr ''Financial Services''), (''pricing_tier'', PStr ''bundle'')]]) \<and>
   (\<exists>res ext.
       create_all_stripe_products stripe_ok [] = (Inr res, [] @ ext) \<and>
       map bundle_view (bundles res) =
         map (\<lambda>c. (Some (PStr c), Some (PInt (199 + 10 * int (length c))))) categories \<and>
       length (product_requests ext) = 487 + 14 \<and>
       drop 487 (product_requests ext) =
         map (\<lambda>c. (Some (PStr ''bundle''), Some (PStr c))) categories
         @ [(Some (PStr ''vault_license''), None),
            (Some (PStr ''subscription''), None),
            (Some (PStr ''subscription''), None),
            (Some (PStr ''enterprise''), None)] \<and>
       drop 487 (price_requests ext) =
         map (\<lambda>c. (Some (PStr ''bundle''), (199 + 10 * int (length c)) * 100)) categories
         @ [(Some (PStr ''vault''), 99700),
            (Some (PStr ''subscription''), 4700),
            (Some (PStr ''subscription''), 47000),
            (Some (PStr ''enterprise_starter''), 199700),
            (Some (PStr ''enterprise_growth''), 299700),
            (Some (PStr ''enterprise_enterprise''), 499700)])"
proof -
  have ok: "always_succeeds stripe_ok"
    by (rule stripe_ok_always)
  have run: "create_bundle_product stripe_ok ''Financial Services'' [] =
     (Inr [(''product_id'', PStr ''id_0''), (''price_id'', PStr ''id_1''),
           (''category'', PStr ''Financial Services''), (''amount'', PInt 379),
           (''template_count'', PInt 48)],
      [Product_create ''Financial Services Template Bundle''
         ''Complete financial services business template collection with 48+ templates''
         [(''category'', PStr ''Financial Services''), (''template_count'', PInt 48),
          (''type'', PStr ''bundle'')],
       Price_create ''id_0'' 37900 ''usd'' None
         [(''category'', PStr ''Financial Services''), (''pricing_tier'', PStr ''bundle'')]])"
    by code_simp
  note catalog = bundle_step_and_tier_requests [OF ok, of "''Financial Services''" "[]",
                   THEN conjunct2]
  show ?thesis
    using ok run catalog by (intro conjI)
qed

lemma vault_requests:
  "\<exists>ext. snd (create_vault_license_product api log) = log @ ext \<and>
         set (price_requests ext) \<subseteq> {(Some (PStr ''vault''), 99700)} \<and>
         product_requests ext = [(Some (PStr ''vault_license''), None)]"
proof -
  let ?c1 = "Product_create ''Template Vault License - All 487 Templates''
                ''Complete access to all 487 business templates + lifetime updates + exclusive consulting sessions''
                [(''template_count'', PInt 487), (''type'', PStr ''vault_license''),
                 (''includes'', PStr ''all_templates,lifetime_updates,consulting'')]"
  from stripe_request_cases [of api log ?c1]
  show ?thesis
  proof (elim disjE exE conjE)
    fix reason
    assume r: "stripe_request api ?c1 log = (Inl (StripeError reason), log @ [?c1])"
    have "snd (create_vault_license_product api log) = log @ [?c1]"
      unfolding create_vault_license_product_def by (simp only: r prod.case sum.case snd_conv)
    moreover have "set (price_requests [?c1]) \<subseteq> {(Some (PStr ''vault''), 99700)}"
      by simp
    moreover have "product_requests [?c1] = [(Some (PStr ''vault_license''), None)]"
      by simp
    ultimately show ?thesis by (intro exI conjI)
  next
    fix p
    assume r: "stripe_request api ?c1 log = (Inr p, log @ [?c1])"
    let ?c2 = "Price_create p 99700 ''usd'' None
                 [(''pricing_tier'', PStr ''vault''),
                  (''value_proposition'', PStr ''complete_access'')]"
    from stripe_request_cases [of api "log @ [?c1]" ?c2]
    have "snd (create_vault_license_product api log) = (log @ [?c1]) @ [?c2]"
    proof (elim disjE exE conjE)
      fix reason
      assume r2: "stripe_request api ?c2 (log @ [?c1])
                    = (Inl (StripeError reason), (log @ [?c1]) @ [?c2])"
      show ?thesis
        unfolding create_vault_license_product_def
        by (simp only: r r2 prod.case sum.case snd_conv)
    next
      fix q
      assume r2: "stripe_request api ?c2 (log @ [?c1]) = (Inr q, (log @ [?c1]) @ [?c2])"
      show ?thesis
        unfolding create_vault_license_product_def
        by (simp only: r r2 prod.case sum.case snd_conv)
    qed
    then have "snd (create_vault_license_product api log) = log @ [?c1, ?c2]"
      by (simp only: append_assoc append_Cons append_Nil)
    moreover have "set (price_requests [?c1, ?c2]) \<subseteq> {(Some (PStr ''vault''), 99700)}"
      by simp
    moreover have "product_requests [?c1, ?c2] = [(Some (PStr ''vault_license''), None)]"
      by simp
    ultimately show ?thesis by (intro exI conjI)
  qed
qed

text \<open>
  C7. The vault license step has a fixed price. Whatever the service answers and whatever
  was requested before (so also when the step has run any number of times already), every
  record the step returns has the amount 997, and every price request it issues is of 99700
  cents; the step takes no item id. Against a service that answers every request the step
  does return a record.
\<close>

theorem vault_price_fixed:
  "(\<forall>r. fst (create_vault_license_product api log) = Inr r \<longrightarrow>
      map_of r ''amount'' = Some (PInt 997)) \<and>
   (\<exists>ext. snd (create_vault_license_product api log) = log @ ext \<and>
      set (price_requests ext) \<subseteq> {(Some (PStr ''vault''), 99700)}) \<and>
   (always_succeeds api \<longrightarrow>
      (\<exists>r ext. create_vault_license_product api log = (Inr r, log @ ext) \<and>
         map_of r ''amount'' = Some (PInt 997) \<and>
         price_requests ext = [(Some (PStr ''vault''), 99700)]))"
proof (intro conjI allI impI)
  fix r
  assume "fst (create_vault_license_product api log) = Inr r"
  then show "map_of r ''amount'' = Some (PInt 997)"
    by (rule vault_record)
next
  show "\<exists>ext. snd (create_vault_license_product api log) = log @ ext \<and>
      set (price_requests ext) \<subseteq> {(Some (PStr ''vault''), 99700)}"
    using vault_requests [of api log] by blast
next
  assume ok: "always_succeeds api"
  from vault_ok [OF ok, of log]
  obtain r ext where "create_vault_license_product api log = (Inr r, log @ ext)"
    and "map_of r ''amount'' = Some (PInt 997)"
    and "price_requests ext = [(Some (PStr ''vault''), 99700)]"
    by (elim exE) simp
  then show "\<exists>r ext. create_vault_license_product api log = (Inr r, log @ ext) \<and>
         map_of r ''amount'' = Some (PInt 997) \<and>
         price_requests ext = [(Some (PStr ''vault''), 99700)]"
    by (intro exI conjI)
qed

theorem vault_price_fixed_witness:
  "always_succeeds stripe_ok \<and>
   fst (create_vault_license_product stripe_ok
          (snd (create_vault_license_product stripe_ok []))) =
     Inr [(''product_id'', PStr ''id_2''), (''price_id'', PStr ''id_3''),
          (''amount'', PInt 997), (''template_count'', PInt 487),
          (''includes'', PList [PStr ''all_templates'', PStr ''lifetime_updates'',
                                PStr ''consulting_sessions''])] \<and>
   map_of [(''product_id'', PStr ''id_2''), (''price_id'', PStr ''id_3''),
           (''amount'', PInt 997), (''template_count'', PInt 487),
           (''includes'', PList [PStr ''all_templates'', PStr ''lifetime_updates'',
                                 PStr ''consulting_sessions''])] ''amount''
     = Some (PInt 997) \<and>
   (\<exists>r ext. create_vault_license_product stripe_ok [] = (Inr r, [] @ ext) \<and>
         map_of r ''amount'' = Some (PInt 997) \<and>
         price_requests ext = [(Some (PStr ''vault''), 99700)])"
proof -
  have ok: "always_succeeds stripe_ok"
    by (rule stripe_ok_always)
  have run: "fst (create_vault_license_product stripe_ok
          (snd (create_vault_license_product stripe_ok []))) =
     Inr [(''product_id'', PStr ''id_2''), (''price_id'', PStr ''id_3''),
          (''amount'', PInt 997), (''template_count'', PInt 487),
          (''includes'', PList [PStr ''all_templates'', PStr ''lifetime_updates'',
                                PStr ''consulting_sessions''])]"
    by code_simp
  note second = vault_price_fixed [of stripe_ok "snd (create_vault_license_product stripe_ok [])",
                  THEN conjunct1, rule_format, OF run]
  note first = vault_price_fixed [of stripe_ok "[]", THEN conjunct2, THEN conjunct2,
                  rule_format, OF ok]
  show ?thesis
    using ok run second first by (intro conjI)
qed

lemma bundle_price_nonneg: "0 \<le> bundle_price category"
  by (simp add: bundle_price_def)

lemma amounts_values:
  assumes "map_of amounts interval = Some amount"
  shows "amount = 47 \<or> amount = 470"
  using assms by (auto simp: amounts_def split: if_splits)

lemma price_tier_nonneg:
  assumes "(k, v) \<in> set (calculate_price_tier category)"
  shows "0 \<le> v"
proof -
  have "calculate_price_tier category \<in> snd ` set pricing_tiers"
    unfolding calculate_price_tier_def
    by (auto simp: pricing_tiers_def split: option.splits if_splits)
  then show ?thesis
    using assms by (auto simp: pricing_tiers_def default_tier_def)
qed

text \<open>
  C8. Every price is a function of the step's input alone and is never negative. Whatever
  the service answers and whatever was requested before, a record returned by the item step
  has the amount \<open>25 + id mod 25\<close>, one returned by the bundle step
  \<open>199 + 10 * len(category)\<close>, one returned by the vault step 997, one returned by the
  subscription step the entry of its interval in the table (47 monthly, 470 annual), and
  one returned by the enterprise step the three price points 1997, 2997 and 4997; two runs
  of a step on the same input therefore return the same amount. The price tiers the
  orchestrator computes for a category are never negative either.
\<close>

theorem prices_deterministic_nonnegative:
  "(\<forall>r. fst (create_individual_template_product api template_id log) = Inr r \<longrightarrow>
      map_of r ''amount'' = Some (PInt (25 + template_id mod 25)) \<and>
      0 \<le> 25 + template_id mod 25) \<and>
   (\<forall>r. fst (create_bundle_product api category log) = Inr r \<longrightarrow>
      map_of r ''amount'' = Some (PInt (199 + 10 * int (length category))) \<and>
      0 \<le> 199 + 10 * int (length category)) \<and>
   (\<forall>r. fst (create_vault_license_product api log) = Inr r \<longrightarrow>
      map_of r ''amount'' = Some (PInt 997)) \<and>
   (\<forall>r. fst (create_subscription_product api interval log) = Inr r \<longrightarrow>
      (\<exists>amount. map_of amounts interval = Some amount \<and>
         map_of r ''amount'' = Some (PInt amount) \<and> (amount = 47 \<or> amount = 470))) \<and>
   (\<forall>r. fst (create_enterprise_product api log) = Inr r \<longrightarrow>
      (\<exists>ps. map_of r ''pricing_tiers'' = Some (PList ps) \<and>
         map tier_view ps =
           [(Some (PStr ''starter''), Some (PInt 1997)),
            (Some (PStr ''growth''), Some (PInt 2997)),
            (Some (PStr ''enterprise''), Some (PInt 4997))])) \<and>
   (\<forall>r r'. fst (create_individual_template_product api template_id log) = Inr r \<and>
      fst (create_individual_template_product api' template_id log') = Inr r' \<longrightarrow>
      map_of r ''amount'' = map_of r' ''amount'') \<and>
   (\<forall>r r'. fst (create_bundle_product api category log) = Inr r \<and>
      fst (create_bundle_product api' category log') = Inr r' \<longrightarrow>
      map_of r ''amount'' = map_of r' ''amount'') \<and>
   (\<forall>r r'. fst (create_subscription_product api interval log) = Inr r \<and>
      fst (create_subscription_product api' interval log') = Inr r' \<longrightarrow>
      map_of r ''amount'' = map_of r' ''amount'') \<and>
   (\<forall>k v. (k, v) \<in> set (calculate_price_tier category') \<longrightarrow> 0 \<le> v)"
proof (intro conjI allI impI)
  fix r
  assume a: "fst (create_individual_template_product api template_id log) = Inr r"
  show "map_of r ''amount'' = Some (PInt (25 + template_id mod 25))"
    using individual_record [OF a] by (simp add: base_price_def)
  show "0 \<le> 25 + template_id mod 25"
    using base_price_bounds [of template_id] by (simp add: base_price_def)
next
  fix r
  assume a: "fst (create_bundle_product api category log) = Inr r"
  show "map_of r ''amount'' = Some (PInt (199 + 10 * int (length category)))"
    using bundle_record [OF a] by (simp add: bundle_price_def)
  show "0 \<le> 199 + 10 * int (length category)"
    by simp
next
  fix r
  assume "fst (create_vault_license_product api log) = Inr r"
  then show "map_of r ''amount'' = Some (PInt 997)"
    by (rule vault_record)
next
  fix r
  assume a: "fst (create_subscription_product api interval log) = Inr r"
  from subscription_record [OF a]
  obtain amount where t: "map_of amounts interval = Some amount"
    and m: "map_of r ''amount'' = Some (PInt amount)"
    by blast
  from amounts_values [OF t] t m
  show "\<exists>amount. map_of amounts interval = Some amount \<and>
         map_of r ''amount'' = Some (PInt amount) \<and> (amount = 47 \<or> amount = 470)"
    by blast
next
  fix r
  assume "fst (create_enterprise_product api log) = Inr r"
  then show "\<exists>ps. map_of r ''pricing_tiers'' = Some (PList ps) \<and>
         map tier_view ps =
           [(Some (PStr ''starter''), Some (PInt 1997)),
            (Some (PStr ''growth''), Some (PInt 2997)),
            (Some (PStr ''enterprise''), Some (PInt 4997))]"
    by (rule enterprise_record)
next
  fix r r'
  assume "fst (create_individual_template_product api template_id log) = Inr r \<and>
      fst (create_individual_template_product api' template_id log') = Inr r'"
  then show "map_of r ''amount'' = map_of r' ''amount''"
    using individual_record [of api template_id log r]
      individual_record [of api' template_id log' r'] by simp
next
  fix r r'
  assume "fst (create_bundle_product api category log) = Inr r \<and>
      fst (create_bundle_product api' category log') = Inr r'"
  then show "map_of r ''amount'' = map_of r' ''amount''"
    using bundle_record [of api category log r]
      bundle_record [of api' category log' r'] by simp
next
  fix r r'
  assume "fst (create_subscription_product api interval log) = Inr r \<and>
      fst (create_subscription_product api' interval log') = Inr r'"
  then show "map_of r ''amount'' = map_of r' ''amount''"
    using subscription_record [of api interval log r]
      subscription_record [of api' interval log' r'] by auto
next
  fix k v
  assume "(k, v) \<in> set (calculate_price_tier category')"
  then show "0 \<le> v"
    by (rule price_tier_nonneg)
qed

theorem prices_deterministic_nonnegative_witness:
  "(\<exists>r. fst (create_individual_template_product stripe_ok 24 []) = Inr r \<and>
        map_of r ''amount'' = Some (PInt (25 + 24 mod 25)) \<and> (0::int) \<le> 25 + 24 mod 25) \<and>
   (\<exists>r. fst (create_bundle_product stripe_ok ''Financial Services'' []) = Inr r \<and>
        map_of r ''amount'' = Some (PInt (199 + 10 * int (length ''Financial Services'')))) \<and>
   (\<exists>r. fst (create_vault_license_product stripe_ok []) = Inr r \<and>
        map_of r ''amount'' = Some (PInt 997)) \<and>
   (\<exists>r amount. fst (create_subscription_product stripe_ok ''annual'' []) = Inr r \<and>
        map_of amounts ''annual'' = Some amount \<and>
        map_of r ''amount'' = Some (PInt amount) \<and> (amount = 47 \<or> amount = 470)) \<and>
   (\<exists>r ps. fst (create_enterprise_product stripe_ok []) = Inr r \<and>
        map_of r ''pricing_tiers'' = Some (PList ps) \<and>
        map tier_view ps =
           [(Some (PStr ''starter''), Some (PInt 1997)),
            (Some (PStr ''growth''), Some (PInt 2997)),
            (Some (PStr ''enterprise''), Some (PInt 4997))]) \<and>
   (\<exists>r r'. fst (create_individual_template_product stripe_ok 24 []) = Inr r \<and>
        fst (create_individual_template_product (stripe_fails_on 2) 24 []) = Inr r' \<and>
        map_of r ''amount'' = map_of r' ''amount'') \<and>
   ((''individual'', 49) \<in> set (calculate_price_tier ''FinTech'') \<and> (0::int) \<le> 49)"
proof -
  let ?I = "[(''product_id'', PStr ''id_0''), (''price_id'', PStr ''id_1''),
             (''template_id'', PInt 24), (''amount'', PInt 49),
             (''stripe_url'', PStr ''https://buy.stripe.com/test_id_1'')]"
  let ?I' = "[(''product_id'', PStr ''prod_0''), (''price_id'', PStr ''price_1''),
             (''template_id'', PInt 24), (''amount'', PInt 49),
             (''stripe_url'', PStr ''https://buy.stripe.com/test_price_1'')]"
  let ?B = "[(''product_id'', PStr ''id_0''), (''price_id'', PStr ''id_1''),
             (''category'', PStr ''Financial Services''), (''amount'', PInt 379),
             (''template_count'', PInt 48)]"
  let ?V = "[(''product_id'', PStr ''id_0''), (''price_id'', PStr ''id_1''),
             (''amount'', PInt 997), (''template_count'', PInt 487),
             (''includes'', PList [PStr ''all_templates'', PStr ''lifetime_updates'',
                                   PStr ''consulting_sessions''])]"
  let ?S = "[(''product_id'', PStr ''id_0''), (''price_id'', PStr ''id_1''),
             (''interval'', PStr ''annual''), (''amount'', PInt 470),
             (''templates_per_month'', PInt 10)]"
  let ?E = "[(''product_id'', PStr ''id_0''),
             (''pricing_tiers'', PList
                [PDict [(''tier'', PStr ''starter''), (''price_id'', PStr ''id_1''),
                        (''amount'', PInt 1997)],
                 PDict [(''tier'', PStr ''growth''), (''price_id'', PStr ''id_2''),
                        (''amount'', PInt 2997)],
                 PDict [(''tier'', PStr ''enterprise''), (''price_id'', PStr ''id_3''),
                        (''amount'', PInt 4997)]]),
             (''type'', PStr ''enterprise'')]"
  have i1: "fst (create_individual_template_product stripe_ok 24 []) = Inr ?I"
    by code_simp
  have i2: "fst (create_individual_template_product (stripe_fails_on 2) 24 []) = Inr ?I'"
    by code_simp
  have b: "fst (create_bundle_product stripe_ok ''Financial Services'' []) = Inr ?B"
    by code_simp
  have v: "fst (create_vault_license_product stripe_ok []) = Inr ?V"
    by code_simp
  have s: "fst (create_subscription_product stripe_ok ''annual'' []) = Inr ?S"
    by code_simp
  have e: "fst (create_enterprise_product stripe_ok []) = Inr ?E"
    by code_simp
  have t: "(''individual'', 49) \<in> set (calculate_price_tier ''FinTech'')"
    by code_simp
  note all = prices_deterministic_nonnegative
    [where api = stripe_ok and template_id = 24 and log = "[]"
       and category = "''Financial Services''" and interval = "''annual''"
       and api' = "stripe_fails_on 2" and log' = "[]" and category' = "''FinTech''"]
  note c1 = all [THEN conjunct1, rule_format, OF i1]
  note c2 = all [THEN conjunct2, THEN conjunct1, rule_format, OF b, THEN conjunct1]
  note c3 = all [THEN conjunct2, THEN conjunct2, THEN conjunct1, rule_format, OF v]
  note c4 = all [THEN conjunct2, THEN conjunct2, THEN conjunct2, THEN conjunct1,
                 rule_format, OF s]
  note c5 = all [THEN conjunct2, THEN conjunct2, THEN conjunct2, THEN conjunct2,
                 THEN conjunct1, rule_format, OF e]
  note c6 = all [THEN conjunct2, THEN conjunct2, THEN conjunct2, THEN conjunct2,
                 THEN conjunct2, THEN conjunct1, rule_format, OF conjI [OF i1 i2]]
  note c9 = all [THEN conjunct2, THEN conjunct2, THEN conjunct2, THEN conjunct2,
                 THEN conjunct2, THEN conjunct2, THEN conjunct2, THEN conjunct2,
                 rule_format, OF t]
  from c4 obtain amount where c4': "map_of amounts ''annual'' = Some amount \<and>
        map_of ?S ''amount'' = Some (PInt amount) \<and> (amount = 47 \<or> amount = 470)"
    by (elim exE)
  from c5 obtain ps where c5': "map_of ?E ''pricing_tiers'' = Some (PList ps) \<and>
        map tier_view ps =
           [(Some (PStr ''starter''), Some (PInt 1997)),
            (Some (PStr ''growth''), Some (PInt 2997)),
            (Some (PStr ''enterprise''), Some (PInt 4997))]"
    by (elim exE)
  show ?thesis
  proof (intro conjI)
    show "\<exists>r. fst (create_individual_template_product stripe_ok 24 []) = Inr r \<and>
        map_of r ''amount'' = Some (PInt (25 + 24 mod 25)) \<and> (0::int) \<le> 25 + 24 mod 25"
      by (rule exI [of _ ?I], rule conjI [OF i1 c1])
    show "\<exists>r. fst (create_bundle_product stripe_ok ''Financial Services'' []) = Inr r \<and>
        map_of r ''amount'' = Some (PInt (199 + 10 * int (length ''Financial Services'')))"
      by (rule exI [of _ ?B], rule conjI [OF b c2])
    show "\<exists>r. fst (create_vault_license_product stripe_ok []) = Inr r \<and>
        map_of r ''amount'' = Some (PInt 997)"
      by (rule exI [of _ ?V], rule conjI [OF v c3])
    show "\<exists>r amount. fst (create_subscription_product stripe_ok ''annual'' []) = Inr r \<and>
        map_of amounts ''annual'' = Some amount \<and>
        map_of r ''amount'' = Some (PInt amount) \<and> (amount = 47 \<or> amount = 470)"
      by (rule exI [of _ ?S], rule exI [of _ amount], rule conjI [OF s c4'])
    show "\<exists>r ps. fst (create_enterprise_product stripe_ok []) = Inr r \<and>
        map_of r ''pricing_tiers'' = Some (PList ps) \<and>
        map tier_view ps =
           [(Some (PStr ''starter''), Some (PInt 1997)),
            (Some (PStr ''growth''), Some (PInt 2997)),
            (Some (PStr ''enterprise''), Some (PInt 4997))]"
      by (rule exI [of _ ?E], rule exI [of _ ps], rule conjI [OF e c5'])
    show "\<exists>r r'. fst (create_individual_template_product stripe_ok 24 []) = Inr r \<and>
        fst (create_individual_template_product (stripe_fails_on 2) 24 []) = Inr r' \<and>
        map_of r ''amount'' = map_of r' ''amount''"
      by (rule exI [of _ ?I], rule exI [of _ ?I'], rule conjI [OF i1 conjI [OF i2 c6]])
    show "(''individual'', 49) \<in> set (calculate_price_tier ''FinTech'')"
      by (rule t)
    show "(0::int) \<le> 49"
      by (rule c9)
  qed
qed

lemma all_ok_middle:
  assumes "all_ok api log (pre @ c # post)"
  shows "\<exists>ident. api (log @ pre) c = Inr ident"
  using assms by (simp add: all_ok_append)

lemma faithful_stops:
  assumes f: "faithful api log res"
    and split: "snd res = log @ pre @ c # post"
    and refused: "api (log @ pre) c = Inl reason"
  shows "post = [] \<and> all_ok api log pre \<and> fst res = Inl (StripeError reason)"
proof -
  from f obtain ext where ext: "snd res = log @ ext"
    and outcome: "case fst res of Inr x \<Rightarrow> all_ok api log ext
                    | Inl e \<Rightarrow> fails_last api log ext e"
    unfolding faithful_def by blast
  from ext split have e: "ext = pre @ c # post" by simp
  show ?thesis
  proof (cases "fst res")
    case (Inr x)
    with outcome e have "all_ok api log (pre @ c # post)" by simp
    from all_ok_middle [OF this] refused show ?thesis by simp
  next
    case (Inl err)
    with outcome obtain pre' c' reason' where e': "ext = pre' @ [c']"
      and ok: "all_ok api log pre'"
      and r': "api (log @ pre') c' = Inl reason'"
      and err: "err = StripeError reason'"
      unfolding fails_last_def by auto
    show ?thesis
    proof (cases post rule: rev_cases)
      case Nil
      with e e' have "pre = pre'" and "c = c'" by simp_all
      with ok r' refused err Inl Nil show ?thesis by simp
    next
      case (snoc ys y)
      with e e' have "pre' = pre @ c # ys" by simp
      with ok have "all_ok api log (pre @ c # ys)" by simp
      from all_ok_middle [OF this] refused show ?thesis by simp
    qed
  qed
qed

text \<open>
  C2, as the code has it. Catalog generation has no error handling of its own: a failure
  of a request leaves the method as the exception the service raised. So the run returns
  either a result, and then every request it issued was answered, or an error and no
  record at all, and then the refused request is the last one it issued, every earlier
  request was answered (what they created stays created), and the error is the refusal of
  that request. Put the other way round: a refused request is always the last request of
  the run, and its refusal is the outcome, whichever entry it belongs to.
\<close>

theorem generation_stops_at_first_failure:
  "\<exists>ext. snd (create_all_stripe_products api log) = log @ ext \<and>
     (case fst (create_all_stripe_products api log) of
        Inr res \<Rightarrow> all_ok api log ext
      | Inl e \<Rightarrow>
          (\<exists>pre c reason. ext = pre @ [c] \<and> all_ok api log pre \<and>
             api (log @ pre) c = Inl reason \<and> e = StripeError reason)) \<and>
     (\<forall>pre c post reason.
        ext = pre @ c # post \<and> api (log @ pre) c = Inl reason \<longrightarrow>
        post = [] \<and> all_ok api log pre \<and>
        fst (create_all_stripe_products api log) = Inl (StripeError reason))"
proof -
  have f: "faithful api log (create_all_stripe_products api log)"
    by (rule faithful_create_all)
  then obtain ext where ext: "snd (create_all_stripe_products api log) = log @ ext"
    and outcome: "case fst (create_all_stripe_products api log) of
        Inr res \<Rightarrow> all_ok api log ext
      | Inl e \<Rightarrow>
          (\<exists>pre c reason. ext = pre @ [c] \<and> all_ok api log pre \<and>
             api (log @ pre) c = Inl reason \<and> e = StripeError reason)"
    unfolding faithful_def fails_last_def by blast
  have "post = [] \<and> all_ok api log pre \<and>
        fst (create_all_stripe_products api log) = Inl (StripeError reason)"
    if "ext = pre @ c # post \<and> api (log @ pre) c = Inl reason" for pre c post reason
    using faithful_stops [OF f, of pre c post reason] that ext by simp
  with ext outcome show ?thesis by blast
qed

theorem generation_stops_at_first_failure_witness:
  "snd (create_all_stripe_products (stripe_fails_on 2) []) =
     [Product_create ''Business Template #001''
        ''AI-powered business template with automated setup and monetization strategies''
        [(''template_id'', PInt 1), (''category'', PStr ''Corporate & Enterprise''),
         (''type'', PStr ''individual_template'')],
      Price_create ''prod_0'' 2600 ''usd'' None
        [(''template_id'', PInt 1), (''pricing_tier'', PStr ''individual'')]]
     @ Product_create ''Business Template #002''
        ''AI-powered business template with automated setup and monetization strategies''
        [(''template_id'', PInt 2), (''category'', PStr ''Corporate & Enterprise''),
         (''type'', PStr ''individual_template'')] # [] \<and>
   stripe_fails_on 2
     ([] @ [Product_create ''Business Template #001''
        ''AI-powered business template with automated setup and monetization strategies''
        [(''template_id'', PInt 1), (''category'', PStr ''Corporate & Enterprise''),
         (''type'', PStr ''individual_template'')],
      Price_create ''prod_0'' 2600 ''usd'' None
        [(''template_id'', PInt 1), (''pricing_tier'', PStr ''individual'')]])
     (Product_create ''Business Template #002''
        ''AI-powered business template with automated setup and monetization strategies''
        [(''template_id'', PInt 2), (''category'', PStr ''Corporate & Enterprise''),
         (''type'', PStr ''individual_template'')]) = Inl ''card_declined'' \<and>
   fst (create_all_stripe_products (stripe_fails_on 2) []) =
     Inl (StripeError ''card_declined'')"
proof -
  let ?pre = "[Product_create ''Business Template #001''
        ''AI-powered business template with automated setup and monetization strategies''
        [(''template_id'', PInt 1), (''category'', PStr ''Corporate & Enterprise''),
         (''type'', PStr ''individual_template'')],
      Price_create ''prod_0'' 2600 ''usd'' None
        [(''template_id'', PInt 1), (''pricing_tier'', PStr ''individual'')]]"
  let ?c = "Product_create ''Business Template #002''
        ''AI-powered business template with automated setup and monetization strategies''
        [(''template_id'', PInt 2), (''category'', PStr ''Corporate & Enterprise''),
         (''type'', PStr ''individual_template'')]"
  have run: "snd (create_all_stripe_products (stripe_fails_on 2) []) = ?pre @ ?c # []"
    by code_simp
  have refused: "stripe_fails_on 2 ([] @ ?pre) ?c = Inl ''card_declined''"
    by (simp add: stripe_fails_on_def)
  from generation_stops_at_first_failure [of "stripe_fails_on 2" "[]"]
  obtain ext where ext: "snd (create_all_stripe_products (stripe_fails_on 2) []) = [] @ ext"
    and stop: "\<forall>pre c post reason.
        ext = pre @ c # post \<and> stripe_fails_on 2 ([] @ pre) c = Inl reason \<longrightarrow>
        post = [] \<and> all_ok (stripe_fails_on 2) [] pre \<and>
        fst (create_all_stripe_products (stripe_fails_on 2) []) = Inl (StripeError reason)"
    by (elim exE conjE)
  from ext run have "ext = ?pre @ ?c # []"
    by (simp only: append_Nil)
  with stop refused
  have "fst (create_all_stripe_products (stripe_fails_on 2) []) =
          Inl (StripeError ''card_declined'')"
    by blast
  with run refused show ?thesis by (intro conjI)
qed

text \<open>
  C2, as the claim states it, fails. The service below refuses exactly one request, the
  product request of template 2, and answers every other one. The run does not return 486
  records and an error: it returns the error alone. The product and the price of template 1
  were created and their record is lost with the run; template 3 and everything after it,
  the fourteen tier entries included, are never requested.
\<close>

theorem partial_catalog_counterexample:
  "fst (create_all_stripe_products (stripe_fails_on 2) []) =
     Inl (StripeError ''card_declined'') \<and>
   \<not> (\<exists>res. fst (create_all_stripe_products (stripe_fails_on 2) []) = Inr res) \<and>
   product_requests (snd (create_all_stripe_products (stripe_fails_on 2) [])) =
     [(Some (PStr ''individual_template''), Some (PStr ''Corporate & Enterprise'')),
      (Some (PStr ''individual_template''), Some (PStr ''Corporate & Enterprise''))] \<and>
   price_requests (snd (create_all_stripe_products (stripe_fails_on 2) [])) =
     [(Some (PStr ''individual''), 2600)]"
proof -
  have raised: "fst (create_all_stripe_products (stripe_fails_on 2) []) =
     Inl (StripeError ''card_declined'')"
    by code_simp
  have products: "product_requests (snd (create_all_stripe_products (stripe_fails_on 2) [])) =
     [(Some (PStr ''individual_template''), Some (PStr ''Corporate & Enterprise'')),
      (Some (PStr ''individual_template''), Some (PStr ''Corporate & Enterprise''))]"
    by code_simp
  have prices: "price_requests (snd (create_all_stripe_products (stripe_fails_on 2) [])) =
     [(Some (PStr ''individual''), 2600)]"
    by code_simp
  have "\<not> (\<exists>res. fst (create_all_stripe_products (stripe_fails_on 2) []) = Inr res)"
    unfolding raised by simp
  with raised products prices show ?thesis by (intro conjI)
qed

end
